theory Spec2Isabelle
  imports Complex_Main "HOL-Library.Sublist" "HOL-Library.AList"
begin

section \<open>Python strings and lists\<close>

text \<open>
  A Python \<^verbatim>\<open>str\<close> is modelled as a \<^typ>\<open>string\<close>, one \<^typ>\<open>char\<close> for each
  character (a \<^typ>\<open>char\<close> is one of the first 256 characters). The literals of \<^verbatim>\<open>main.py\<close> are kept character by character where they
  are ASCII (markup, braces, URLs, keys, file names). Their Cyrillic, Japanese and emoji
  text cannot be written in a \<^typ>\<open>string\<close> literal and is replaced by an ASCII gloss of the
  same sentence, between the same ASCII markup; no statement below depends on the wording
  of a gloss. The operator \<^verbatim>\<open>sub in s\<close> on strings is \<^term>\<open>sublist sub s\<close>.
\<close>

text \<open>\<^verbatim>\<open>range(0, stop, step)\<close> for a positive step.\<close>

definition range_step :: "nat \<Rightarrow> nat \<Rightarrow> nat list" where
  "range_step stop step = map (\<lambda>k. k * step) [0 ..< (stop + step - 1) div step]"

text \<open>The slice \<^verbatim>\<open>xs[i:j]\<close> for \<open>0 \<le> i \<le> j\<close>: it stops at the end of the list.\<close>

definition slice :: "'a list \<Rightarrow> nat \<Rightarrow> nat \<Rightarrow> 'a list" where
  "slice xs i j = take (j - i) (drop i xs)"

text \<open>
  \<^verbatim>\<open>s.replace(old, new)\<close>: every occurrence of \<open>old\<close>, found from left to right without
  overlap, is replaced; an empty \<open>old\<close> matches before every character and at the end.
\<close>

function replace_nonempty :: "string \<Rightarrow> string \<Rightarrow> string \<Rightarrow> string" where
  "replace_nonempty old new [] = []"
| "replace_nonempty old new (c # s) =
     (if prefix old (c # s) then new @ replace_nonempty old new (drop (length old - 1) s)
      else c # replace_nonempty old new s)"
  by pat_completeness auto
termination
  by (relation "measure (\<lambda>(old, new, s). length s)") auto

definition str_replace :: "string \<Rightarrow> string \<Rightarrow> string \<Rightarrow> string" where
  "str_replace s old new =
     (if old = [] then new @ concat (map (\<lambda>c. c # new) s) else replace_nonempty old new s)"

text \<open>\<^verbatim>\<open>s.count(c)\<close> for a one-character \<open>c\<close>.\<close>

definition str_count :: "string \<Rightarrow> char \<Rightarrow> nat" where
  "str_count s c = length (filter (\<lambda>x. x = c) s)"

text \<open>\<^verbatim>\<open>sep.join(xs)\<close>.\<close>

fun str_join :: "string \<Rightarrow> string list \<Rightarrow> string" where
  "str_join sep [] = []"
| "str_join sep [x] = x"
| "str_join sep (x # y # xs) = x @ sep @ str_join sep (y # xs)"

text \<open>\<^verbatim>\<open>s.split(sep)\<close> for a one-character separator: empty fields are kept.\<close>

fun str_split :: "char \<Rightarrow> string \<Rightarrow> string list" where
  "str_split sep [] = [[]]"
| "str_split sep (c # s) =
     (if c = sep then [] # str_split sep s
      else (case str_split sep s of [] \<Rightarrow> [[c]] | w # ws \<Rightarrow> (c # w) # ws))"

text \<open>
  \<^verbatim>\<open>s.lower()\<close> on the first 256 characters: the letters A to Z and the capital
  letters U+00C0 to U+00DE (all but the sign U+00D7) go to the character 32 places
  further; every other character is kept.
\<close>

definition upper_chars :: string where
  "upper_chars =
     ''ABCDEFGHIJKLMNOPQRSTUVWXYZ''
     @ [CHR 0xC0, CHR 0xC1, CHR 0xC2, CHR 0xC3, CHR 0xC4, CHR 0xC5, CHR 0xC6, CHR 0xC7,
        CHR 0xC8, CHR 0xC9, CHR 0xCA, CHR 0xCB, CHR 0xCC, CHR 0xCD, CHR 0xCE, CHR 0xCF,
        CHR 0xD0, CHR 0xD1, CHR 0xD2, CHR 0xD3, CHR 0xD4, CHR 0xD5, CHR 0xD6, CHR 0xD8,
        CHR 0xD9, CHR 0xDA, CHR 0xDB, CHR 0xDC, CHR 0xDD, CHR 0xDE]"

definition lower_chars :: string where
  "lower_chars =
     ''abcdefghijklmnopqrstuvwxyz''
     @ [CHR 0xE0, CHR 0xE1, CHR 0xE2, CHR 0xE3, CHR 0xE4, CHR 0xE5, CHR 0xE6, CHR 0xE7,
        CHR 0xE8, CHR 0xE9, CHR 0xEA, CHR 0xEB, CHR 0xEC, CHR 0xED, CHR 0xEE, CHR 0xEF,
        CHR 0xF0, CHR 0xF1, CHR 0xF2, CHR 0xF3, CHR 0xF4, CHR 0xF5, CHR 0xF6, CHR 0xF8,
        CHR 0xF9, CHR 0xFA, CHR 0xFB, CHR 0xFC, CHR 0xFD, CHR 0xFE]"

definition lower_char :: "char \<Rightarrow> char" where
  "lower_char c = (case map_of (zip upper_chars lower_chars) c of Some l \<Rightarrow> l | None \<Rightarrow> c)"

definition str_lower :: "string \<Rightarrow> string" where
  "str_lower s = map lower_char s"

text \<open>
  \<^verbatim>\<open>s.strip()\<close>: the white space at both ends is removed. Among the first 256
  characters \<^verbatim>\<open>str.isspace\<close> holds for the space, U+0009 to U+000D, U+001C to U+001F,
  U+0085 and U+00A0.
\<close>

definition is_space :: "char \<Rightarrow> bool" where
  "is_space c = (c \<in> set [CHR '' '', CHR 0x09, CHR 0x0A, CHR 0x0B, CHR 0x0C, CHR 0x0D,
                           CHR 0x1C, CHR 0x1D, CHR 0x1E, CHR 0x1F, CHR 0x85, CHR 0xA0])"

definition str_strip :: "string \<Rightarrow> string" where
  "str_strip s = rev (dropWhile is_space (rev (dropWhile is_space s)))"

text \<open>\<^verbatim>\<open>str(n)\<close> for a natural number, as the f-strings print a length.\<close>

definition digit_char :: "nat \<Rightarrow> char" where
  "digit_char d = ''0123456789'' ! (d mod 10)"

function str_nat :: "nat \<Rightarrow> string" where
  "str_nat n = (if n < 10 then [digit_char n] else str_nat (n div 10) @ [digit_char (n mod 10)])"
  by pat_completeness auto
termination
  by (relation "measure (\<lambda>n. n)") auto

declare str_nat.simps [simp del]

text \<open>
  The functions of \<^verbatim>\<open>os.path\<close>, for POSIX paths (separator \<^verbatim>\<open>/\<close>).
  \<^verbatim>\<open>os.path.join(a, b)\<close>:
\<close>

definition path_join :: "string \<Rightarrow> string \<Rightarrow> string" where
  "path_join a b =
     (if b \<noteq> [] \<and> hd b = CHR ''/'' then b
      else if a = [] \<or> last a = CHR ''/'' then a @ b
      else a @ ''/'' @ b)"

text \<open>\<^verbatim>\<open>os.path.basename(p)\<close>: what follows the last separator.\<close>

definition basename :: "string \<Rightarrow> string" where
  "basename p = rev (takeWhile (\<lambda>c. c \<noteq> CHR ''/'') (rev p))"

text \<open>
  \<^verbatim>\<open>os.path.splitext(file)[1]\<close> for a file name without separator: the part from the
  last dot on, unless only dots come before that dot.
\<close>

definition splitext_ext :: "string \<Rightarrow> string" where
  "splitext_ext file =
     (let after = rev (takeWhile (\<lambda>c. c \<noteq> CHR ''.'') (rev file));
          before = take (length file - length after - 1) file
      in if CHR ''.'' \<in> set file
         then (if list_all (\<lambda>c. c = CHR ''.'') before then [] else CHR ''.'' # after)
         else [])"

text \<open>
  \<^verbatim>\<open>os.path.relpath(path, start)\<close> for a \<open>path\<close> that \<^verbatim>\<open>os.walk(start)\<close> and
  \<^verbatim>\<open>os.path.join\<close> built below \<open>start\<close>: the part after \<open>start\<close> and its separator.
\<close>

definition relpath :: "string \<Rightarrow> string \<Rightarrow> string" where
  "relpath p start =
     (if start \<noteq> [] \<and> last start = CHR ''/'' then drop (length start) p
      else drop (length start + 1) p)"

section \<open>The data of a run\<close>

text \<open>
  The dictionary that \<^verbatim>\<open>_scan_repository\<close> builds for one file. \<open>content\<close> is what
  \<^verbatim>\<open>_read_file_content\<close> returned (\<open>None\<close> for a file it could not read), \<open>analysis\<close>
  starts as \<open>None\<close>. The key \<^verbatim>\<open>_combine_message\<close> does not exist when the dictionary
  is created: \<open>combine_message\<close> is \<open>None\<close> while the key is absent and \<open>Some v\<close> once
  it holds the value \<open>v\<close> (itself \<open>None\<close> or a text).
\<close>

record file_info =
  path :: string
  extension :: string
  language :: string
  content :: "string option"
  analysis :: "string option"
  combine_message :: "string option option"

section \<open>analyze_with_llm: the language model client\<close>

text \<open>
  What \<^verbatim>\<open>json\<close> decoding returns, as far as this program looks at it: an object whose
  values are strings or something else (a number, a boolean, null, a list, an object,
  given by the text that \<^verbatim>\<open>str()\<close> prints for it), or a value that is not an object.
\<close>

datatype json_value = JString string | JNonString string

datatype json_doc = JObject "(string \<times> json_value) list" | JNotObject

text \<open>
  The outcome of \<^verbatim>\<open>requests.post\<close>: no response (connection error, timeout), or a
  response with its status code and its body, \<open>None\<close> when the body is not JSON. The
  HTTP client reads no body for the statuses 100 to 199, 204 and 304, so the body of such
  a response is \<open>None\<close>.
\<close>

datatype post_outcome = RequestFailed | Response nat "json_doc option"

datatype exn = RequestException | JSONDecodeError | AttributeError

text \<open>
  The model endpoint is outside the program: \<open>endpoint k prompt\<close> is the outcome of the
  request sent with \<open>prompt\<close> after \<open>k\<close> earlier requests. The requests of a run are
  recorded by their prompts, in the order they are sent.
\<close>

type_synonym endpoint = "nat \<Rightarrow> string \<Rightarrow> post_outcome"

type_synonym request_log = "string list"

text \<open>
  \<^verbatim>\<open>response.raise_for_status()\<close> raises an \<^verbatim>\<open>HTTPError\<close>, a \<^verbatim>\<open>RequestException\<close>,
  for the status codes 400 to 599 and for no other.
\<close>

definition raise_for_status :: "nat \<Rightarrow> bool" where
  "raise_for_status status = (400 \<le> status \<and> status < 600)"

text \<open>
  The body of the \<^verbatim>\<open>try\<close>: post, \<^verbatim>\<open>raise_for_status\<close>, \<^verbatim>\<open>response.json()\<close>, then
  \<^verbatim>\<open>result.get("response", "").strip()\<close>, which raises \<^verbatim>\<open>AttributeError\<close> when the
  result has no \<^verbatim>\<open>get\<close> or the value has no \<^verbatim>\<open>strip\<close>.
\<close>

definition post_and_read :: "post_outcome \<Rightarrow> exn + string" where
  "post_and_read outcome =
     (case outcome of
        RequestFailed \<Rightarrow> Inl RequestException
      | Response status body \<Rightarrow>
          if raise_for_status status then Inl RequestException
          else (case body of
                  None \<Rightarrow> Inl JSONDecodeError
                | Some JNotObject \<Rightarrow> Inl AttributeError
                | Some (JObject result) \<Rightarrow>
                    (case map_of result ''response'' of
                       None \<Rightarrow> Inr (str_strip [])
                     | Some (JString text) \<Rightarrow> Inr (str_strip text)
                     | Some (JNonString _) \<Rightarrow> Inl AttributeError)))"

text \<open>
  The \<^verbatim>\<open>try\<close> statement with its three \<^verbatim>\<open>except\<close> clauses, in the order of the
  source; the last one, \<^verbatim>\<open>except Exception\<close>, takes every exception the first two
  leave. Each returns the empty string (the messages they print are not modelled), so
  no exception of the body leaves the function.
\<close>

definition try_request :: "post_outcome \<Rightarrow> string" where
  "try_request outcome =
     (case post_and_read outcome of
        Inr text \<Rightarrow> text
      | Inl RequestException \<Rightarrow> []
      | Inl JSONDecodeError \<Rightarrow> []
      | Inl _ \<Rightarrow> [])"

definition analyze_with_llm :: "endpoint \<Rightarrow> string \<Rightarrow> request_log \<Rightarrow> string \<times> request_log" where
  "analyze_with_llm ep prompt sent = (try_request (ep (length sent) prompt), sent @ [prompt])"

section \<open>analyze_file: the per-file analyzer\<close>

definition max_chunk_size :: nat where
  "max_chunk_size = 5000"

text \<open>
  \<^verbatim>\<open>chunks = [content[i:i+max_chunk_size] for i in range(0, len(content), max_chunk_size)]\<close>
\<close>

definition chunks_of :: "'a list \<Rightarrow> 'a list list" where
  "chunks_of txt =
     map (\<lambda>i. slice txt i (i + max_chunk_size)) (range_step (length txt) max_chunk_size)"

text \<open>
  The languages that are not analysed, and the test of the first line of
  \<^verbatim>\<open>analyze_file\<close>: \<^verbatim>\<open>not file_info["content"]\<close> holds for \<open>None\<close> and for the
  empty string.
\<close>

definition skipped_languages :: "string list" where
  "skipped_languages = [''Unknown'', ''JSON'', ''YAML'', ''TOML'', ''Markdown'']"

definition skips_analysis :: "file_info \<Rightarrow> bool" where
  "skips_analysis file_info =
     ((case content file_info of None \<Rightarrow> True | Some text \<Rightarrow> text = [])
      \<or> language file_info \<in> set skipped_languages)"

text \<open>
  \<^verbatim>\<open>prompt_template\<close> is an f-string: its \<^verbatim>\<open>{{chunk_content}}\<close> is the escape for
  braces and leaves the text \<^verbatim>\<open>{chunk_content}\<close> in the template.
\<close>

definition prompt_template_1 :: string where
  \<open>prompt_template_1 =
     ''\<newline>'' @
     ''        You are an experienced team lead and the chief architect of the project. Your ta'' @
     ''sk is to analyse the given fragment of code and to give the information in the following'' @
     '' format, in Russian and with markdown markup.\<newline>'' @
     ''        Be precise, concise and as useful as possible for understanding the project.\<newline>''\<close>

definition prompt_template_2 :: string where
  \<open>prompt_template_2 =
     ''        **Pay special attention to the main PURPOSE and ROLE of this file in the context'' @
     '' of the whole project, as if you explained it to a new member of the team.**\<newline>'' @
     ''        **Avoid any wording that could hint that the text was generated by an AI. Write '' @
     ''naturally, like a human.**\<newline>'' @
     ''        \<newline>''\<close>

definition prompt_template_3 :: string where
  \<open>prompt_template_3 =
     ''        Example of the desired tone and style:\<newline>'' @
     ''        "This file is the heart of our authentication module. Here we not only process t'' @
     ''he user's input, we also keep the sessions secure. It is important to understand that ev'' @
     ''ery change here affects the stability of the whole system."\<newline>'' @
     ''\<newline>'' @
     ''        ### Purpose of the file\<newline>''\<close>

definition prompt_template_4 :: string where
  \<open>prompt_template_4 =
     ''        A short description in Russian (1-2 sentences) that explains the main purpose an'' @
     ''d role of the file in the context of the project. For example: "This file routes the HTT'' @
     ''P requests", "Here the business logic for processing orders is implemented", "This modul'' @
     ''e holds utility functions for working with dates".\<newline>'' @
     ''\<newline>''\<close>

definition prompt_template_5 :: string where
  \<open>prompt_template_5 =
     ''        ### Main components\<newline>'' @
     ''        - **Classes**: The list of the names of the classes defined in the file, with a '' @
     ''very short description of each.\<newline>'' @
     ''        - **Functions/Methods**: The list of the names of the functions or methods defin'' @
     ''ed in the file, with a very short description of each.\<newline>''\<close>

definition prompt_template_6 :: string where
  \<open>prompt_template_6 =
     ''        - **Variables/Constants**: The list of the key global variables or constants def'' @
     ''ined in the file, with a very short description.\<newline>'' @
     ''\<newline>'' @
     ''        ### Dependencies\<newline>'' @
     ''        The list of the external libraries, modules or frameworks that are imported or u'' @
     ''sed in the file.\<newline>'' @
     ''\<newline>'' @
     ''        ### Additional information\<newline>''\<close>

definition prompt_template_7 :: string where
  \<open>prompt_template_7 =
     ''        Any other useful information, for example design patterns, particularities of th'' @
     ''e implementation, potential problems or important comments.\<newline>'' @
     ''\<newline>'' @
     ''        ---\<newline>'' @
     ''        File: ''\<close>

definition prompt_template_8 :: string where
  \<open>prompt_template_8 =
     ''\<newline>'' @
     ''        Language: ''\<close>

definition prompt_template_9 :: string where
  \<open>prompt_template_9 =
     ''\<newline>'' @
     ''        File content:\<newline>'' @
     ''        ```''\<close>

definition prompt_template_10 :: string where
  \<open>prompt_template_10 =
     ''\<newline>'' @
     ''        {chunk_content}\<newline>'' @
     ''        ```\<newline>'' @
     ''        ''\<close>

definition prompt_template :: "file_info \<Rightarrow> string" where
  "prompt_template file_info =
     prompt_template_1 @ prompt_template_2 @ prompt_template_3 @ prompt_template_4 @
     prompt_template_5 @ prompt_template_6 @ prompt_template_7 @ path file_info @
     prompt_template_8 @ language file_info @ prompt_template_9 @ str_replace (str_lower (language file_info)) '' '' [] @
     prompt_template_10"


text \<open>
  The loop over the chunks: \<open>analysis_results\<close> collects the non-empty answers, in the
  order of the chunks.
\<close>

definition chunk_prompt :: "string \<Rightarrow> string \<Rightarrow> string" where
  "chunk_prompt template chunk = str_replace template ''{{chunk_content}}'' chunk"

fun analyze_chunks ::
  "endpoint \<Rightarrow> string \<Rightarrow> string list \<Rightarrow> string list \<Rightarrow> request_log \<Rightarrow> string list \<times> request_log"
where
  "analyze_chunks ep template [] analysis_results sent = (analysis_results, sent)"
| "analyze_chunks ep template (chunk # chunks) analysis_results sent =
     (let (analysis, sent') = analyze_with_llm ep (chunk_prompt template chunk) sent
      in analyze_chunks ep template chunks
           (if analysis \<noteq> [] then analysis_results @ [analysis] else analysis_results) sent')"

definition combine_prompt_1 :: string where
  \<open>combine_prompt_1 =
     ''\<newline>'' @
     ''            You received several parts of the analysis of one and the same file. Merge t'' @
     ''hem into a single coherent analysis, \<newline>'' @
     ''            keeping the structure: "Purpose of the file", "Main components", "Dependenci'' @
     ''es", "Additional information".\<newline>'' @
     ''            **Pay special attention to the main PURPOSE and ROLE of this file in the con'' @
     ''text of the whole project, as if you explained it to a new member of the team.**\<newline>'' @
     ''            **Avoid any wording that could hint that the text was generated by an AI. Wr'' @
     ''ite naturally, like a human.**\<newline>'' @
     ''            Make sure that the information is not duplicated and is presented concisely.'' @
     ''\<newline>'' @
     ''\<newline>'' @
     ''            Parts of the analysis:\<newline>'' @
     ''            ''\<close>

definition combine_prompt_2 :: string where
  \<open>combine_prompt_2 =
     ''\<newline>'' @
     ''            ''\<close>

definition combine_prompt :: "string list \<Rightarrow> string" where
  "combine_prompt analysis_results =
     combine_prompt_1 @ str_join ''\<newline>'' analysis_results @ combine_prompt_2"


definition combine_message_text :: "string list \<Rightarrow> file_info \<Rightarrow> string" where
  "combine_message_text analysis_results file_info =
     ''Merging '' @ str_nat (length analysis_results) @ '' parts of the analysis for '' @ path file_info"

definition analysis_failed :: string where
  "analysis_failed = ''The analysis of the file could not be obtained.''"

definition analyze_file :: "endpoint \<Rightarrow> file_info \<Rightarrow> request_log \<Rightarrow> file_info \<times> request_log" where
  "analyze_file ep file_info sent =
     (if skips_analysis file_info then (file_info, sent)
      else
        let chunks = chunks_of (case content file_info of None \<Rightarrow> [] | Some text \<Rightarrow> text);
            (analysis_results, sent1) = analyze_chunks ep (prompt_template file_info) chunks [] sent
        in if length analysis_results > 1 then
             let (combined, sent2) = analyze_with_llm ep (combine_prompt analysis_results) sent1
             in (file_info\<lparr>analysis := Some combined,
                   combine_message := Some (Some (combine_message_text analysis_results file_info))\<rparr>,
                 sent2)
           else if analysis_results \<noteq> [] then
             (file_info\<lparr>analysis := Some (hd analysis_results), combine_message := Some None\<rparr>, sent1)
           else
             (file_info\<lparr>analysis := Some analysis_failed, combine_message := Some None\<rparr>, sent1))"

text \<open>
  For the statements about \<^const>\<open>analyze_file\<close>: the answers to the chunk requests of a
  file, when \<open>n\<close> requests were sent before, and the non-empty ones among them.
\<close>

definition chunk_answers :: "endpoint \<Rightarrow> string \<Rightarrow> string list \<Rightarrow> nat \<Rightarrow> string list" where
  "chunk_answers ep template chunks n =
     map (\<lambda>(k, chunk). try_request (ep k (chunk_prompt template chunk))) (enumerate n chunks)"

definition file_chunks :: "file_info \<Rightarrow> string list" where
  "file_chunks file_info = chunks_of (case content file_info of None \<Rightarrow> [] | Some text \<Rightarrow> text)"

definition chunk_results :: "endpoint \<Rightarrow> file_info \<Rightarrow> nat \<Rightarrow> string list" where
  "chunk_results ep file_info n =
     filter (\<lambda>analysis. analysis \<noteq> [])
       (chunk_answers ep (prompt_template file_info) (file_chunks file_info) n)"

definition chunk_requests :: "file_info \<Rightarrow> string list" where
  "chunk_requests file_info = map (chunk_prompt (prompt_template file_info)) (file_chunks file_info)"

text \<open>The fields that \<^verbatim>\<open>_scan_repository\<close> fills from the file itself.\<close>

definition scanned_fields :: "file_info \<Rightarrow> string \<times> string \<times> string \<times> string option" where
  "scanned_fields file_info =
     (path file_info, extension file_info, language file_info, content file_info)"

text \<open>The first loop of \<^verbatim>\<open>generate_readme\<close>: every file in turn.\<close>

fun analyze_files :: "endpoint \<Rightarrow> file_info list \<Rightarrow> request_log \<Rightarrow> file_info list \<times> request_log" where
  "analyze_files ep [] sent = ([], sent)"
| "analyze_files ep (file_info # files) sent =
     (let (file_info', sent1) = analyze_file ep file_info sent;
          (files', sent2) = analyze_files ep files sent1
      in (file_info' # files', sent2))"

section \<open>The repository and its scan\<close>

text \<open>
  The working tree below \<^verbatim>\<open>repo_path\<close>: a directory has a name, its subdirectories and
  its files, in the order \<^verbatim>\<open>os.walk\<close> lists them. A file is given by its name and by what
  \<^verbatim>\<open>_read_file_content\<close> returns for it: the decoded text, or \<open>None\<close> when the file
  cannot be read. The name of the root directory is not looked at.
\<close>

datatype dir = Dir (dir_name: string) (subdirs: "dir list") (dir_files: "(string \<times> string option) list")

text \<open>
  \<^verbatim>\<open>os.walk(top)\<close>, top down: the triple of a directory comes before those of its
  subdirectories. \<open>keep\<close> is the filter that the loop body applies to \<^verbatim>\<open>dirs\<close> in place
  (\<^verbatim>\<open>dirs[:] = [d for d in dirs if ...]\<close>); the walk descends into the names that are left.
\<close>

fun os_walk ::
  "(string \<Rightarrow> bool) \<Rightarrow> string \<Rightarrow> dir \<Rightarrow> (string \<times> string list \<times> (string \<times> string option) list) list"
where
  "os_walk keep walk_root (Dir name dirs files) =
     (walk_root, filter keep (map dir_name dirs), files)
       # concat (map (\<lambda>d. os_walk keep (path_join walk_root (dir_name d)) d)
                   (filter (\<lambda>d. keep (dir_name d)) dirs))"

text \<open>The object \<^verbatim>\<open>self\<close>, after \<^verbatim>\<open>initialize_repository\<close>: the path, the working
  tree found there, and what the git repository answers for the remote URL
  (\<^verbatim>\<open>_get_remote_url\<close>) and for the last commit (\<^verbatim>\<open>_get_last_commit_info\<close>, a dictionary
  that is empty or has the keys hash, message, author and date).\<close>

record documenter =
  repo_path :: string
  tree :: dir
  origin_url :: string
  head_commit :: "(string \<times> string) list"

definition ignore_dirs :: "string list" where
  "ignore_dirs = [''.git'', ''__pycache__'', ''node_modules'', ''venv'', ''env'', ''.idea'',
                  ''.vscode'', ''.github'']"

definition ignore_files :: "string list" where
  "ignore_files = [''.gitignore'', ''README.md'', ''LICENSE'', ''CONTRIBUTING.md'',
                   ''CODE_OF_CONDUCT.md'']"

definition file_extensions :: "(string \<times> string) list" where
  "file_extensions =
     [(''.py'', ''Python''), (''.js'', ''JavaScript''), (''.ts'', ''TypeScript''),
      (''.java'', ''Java''), (''.kt'', ''Kotlin''), (''.go'', ''Go''), (''.rs'', ''Rust''),
      (''.rb'', ''Ruby''), (''.php'', ''PHP''), (''.sh'', ''Bash''), (''.md'', ''Markdown''),
      (''.html'', ''HTML''), (''.css'', ''CSS''), (''.scss'', ''SASS''), (''.json'', ''JSON''),
      (''.yml'', ''YAML''), (''.yaml'', ''YAML''), (''.toml'', ''TOML''),
      (''.dockerfile'', ''Docker''), (''.sql'', ''SQL''), (''.c'', ''C''), (''.cpp'', ''C++''),
      (''.h'', ''C/C++ Header''), (''.hpp'', ''C++ Header''), (''.cs'', ''C#''),
      (''.swift'', ''Swift''), (''.r'', ''R''), (''.pl'', ''Perl''), (''.lua'', ''Lua''),
      (''.vue'', ''Vue.js''), (''.jsx'', ''React JSX''), (''.tsx'', ''React TSX'')]"

definition keep_dir :: "string \<Rightarrow> bool" where
  "keep_dir d = (d \<notin> set ignore_dirs)"

definition keep_file :: "string \<Rightarrow> bool" where
  "keep_file file = (file \<notin> set ignore_files)"

text \<open>
  \<^verbatim>\<open>_scan_repository\<close>: the dictionary built for one file that is not ignored, the inner
  loop over the files of one directory, and the walk with the ignored directories pruned.
\<close>

definition scan_file :: "string \<Rightarrow> string \<Rightarrow> string \<times> string option \<Rightarrow> file_info" where
  "scan_file repo walk_root entry =
     (let file = fst entry;
          file_path = path_join walk_root file;
          rel_path = relpath file_path repo;
          file_ext = str_lower (splitext_ext file)
      in \<lparr>path = rel_path, extension = file_ext,
          language = (case map_of file_extensions file_ext of None \<Rightarrow> ''Unknown'' | Some l \<Rightarrow> l),
          content = snd entry, analysis = None, combine_message = None\<rparr>)"

definition scan_repository :: "documenter \<Rightarrow> file_info list" where
  "scan_repository self =
     concat (map (\<lambda>(walk_root, dirs, files).
                    map (scan_file (repo_path self) walk_root) (filter (\<lambda>entry. keep_file (fst entry)) files))
               (os_walk keep_dir (repo_path self) (tree self)))"

text \<open>
  \<^verbatim>\<open>_get_language_stats\<close>: a second walk with the same pruning of directories. The
  dictionary keeps the order in which the languages are first met.
\<close>

definition tally :: "(string \<times> nat) list \<Rightarrow> string \<Rightarrow> (string \<times> nat) list" where
  "tally stats lang =
     AList.update lang ((case map_of stats lang of None \<Rightarrow> 0 | Some n \<Rightarrow> n) + 1) stats"

definition count_file :: "(string \<times> nat) list \<Rightarrow> string \<Rightarrow> (string \<times> nat) list" where
  "count_file stats file =
     (let ext = str_lower (splitext_ext file)
      in case map_of file_extensions ext of None \<Rightarrow> stats | Some lang \<Rightarrow> tally stats lang)"

definition get_language_stats :: "documenter \<Rightarrow> (string \<times> nat) list" where
  "get_language_stats self =
     foldl (\<lambda>stats (walk_root, dirs, files). foldl count_file stats (map fst files)) []
       (os_walk keep_dir (repo_path self) (tree self))"

text \<open>
  The directory tree of \<^verbatim>\<open>_postprocess_readme\<close>: a third walk, which leaves \<^verbatim>\<open>dirs\<close> as
  it is, one line for every directory and one for each of its files that is not ignored
  (\<open>structure_files\<close>, the names that pass the test of the inner loop).
\<close>

definition structure_files :: "string \<times> string list \<times> (string \<times> string option) list \<Rightarrow> string list" where
  "structure_files entry = (case entry of (walk_root, dirs, files) \<Rightarrow> filter keep_file (map fst files))"

definition structure_entry :: "string \<Rightarrow> string \<times> string list \<times> (string \<times> string option) list \<Rightarrow> string" where
  "structure_entry repo entry =
     (let walk_root = fst entry;
          level = str_count (str_replace walk_root repo []) (CHR ''/'');
          indent = replicate (4 * level) (CHR '' '');
          subindent = replicate (4 * (level + 1)) (CHR '' '')
      in indent @ basename walk_root @ ''/\<newline>''
         @ concat (map (\<lambda>f. subindent @ f @ ''\<newline>'') (structure_files entry)))"

definition project_structure_str :: "documenter \<Rightarrow> string" where
  "project_structure_str self =
     ''```\<newline>''
     @ concat (map (structure_entry (repo_path self))
                 (os_walk (\<lambda>d. True) (repo_path self) (tree self)))
     @ ''```\<newline>''"

section \<open>get_repo_info and generate_readme\<close>

text \<open>
  The dictionary of \<^verbatim>\<open>get_repo_info\<close>. The dictionaries \<^verbatim>\<open>last_commit\<close> and
  \<^verbatim>\<open>language_stats\<close> are lists of their items, in the order of insertion.
\<close>

record repo_info =
  name :: string
  description :: string
  files :: "file_info list"
  last_commit :: "(string \<times> string) list"
  language_stats :: "(string \<times> nat) list"
  remote_url :: string

text \<open>
  Two functions of the standard library are parameters of the model:
  \<open>urlparse_path url\<close> is \<^verbatim>\<open>urlparse(url).path\<close>, and \<open>json_loads text\<close> is
  \<^verbatim>\<open>json.loads(text)\<close>, \<open>None\<close> when it raises \<^verbatim>\<open>JSONDecodeError\<close>.
\<close>

definition get_repo_info :: "(string \<Rightarrow> string) \<Rightarrow> documenter \<Rightarrow> repo_info" where
  "get_repo_info urlparse_path self =
     (let url = origin_url self;
          repo_name =
            (if url \<noteq> [] then
               let path_parts = str_split (CHR ''/'') (urlparse_path url);
                   last_part = last path_parts
               in if suffix ''.git'' last_part then take (length last_part - 4) last_part
                  else last_part
             else if repo_path self \<noteq> [] then basename (repo_path self)
             else ''unknown'')
      in \<lparr>name = repo_name,
          description = ''Automatically generated description of the project'',
          files = scan_repository self,
          last_commit = head_commit self,
          language_stats = get_language_stats self,
          remote_url = url\<rparr>)"

text \<open>The GitHub user and repository of the badges, from the remote URL.\<close>

definition github_parts :: "(string \<Rightarrow> string) \<Rightarrow> string \<Rightarrow> string \<times> string" where
  "github_parts urlparse_path url =
     (if sublist ''github.com'' url then
        let path_parts = filter (\<lambda>part. part \<noteq> []) (str_split (CHR ''/'') (urlparse_path url))
        in if length path_parts \<ge> 2
           then (path_parts ! (length path_parts - 2), str_replace (last path_parts) ''.git'' [])
           else ([], [])
      else ([], []))"

text \<open>\<^verbatim>\<open>_format_files_analysis\<close>.\<close>

definition format_file_analysis :: "file_info \<Rightarrow> string \<Rightarrow> string" where
  "format_file_analysis file text =
     ''### File: `'' @ path file @ ''`\<newline>Language: '' @ language file @ ''\<newline>\<newline>'' @ text
     @ ''\<newline>''"

definition format_files_analysis :: "file_info list \<Rightarrow> string" where
  "format_files_analysis fs =
     (let formatted =
            concat (map (\<lambda>file. case analysis file of
                                   None \<Rightarrow> []
                                 | Some text \<Rightarrow>
                                     if text \<noteq> [] \<and> text \<noteq> analysis_failed
                                     then [format_file_analysis file text] else []) fs)
      in if formatted \<noteq> [] then str_join ''\<newline>'' formatted
         else ''The analysis of the files is not available.'')"

text \<open>\<^verbatim>\<open>d.get(key, default)\<close> on the dictionary of the last commit.\<close>

definition commit_get :: "(string \<times> string) list \<Rightarrow> string \<Rightarrow> string \<Rightarrow> string" where
  "commit_get d key dflt = (case map_of d key of None \<Rightarrow> dflt | Some v \<Rightarrow> v)"

text \<open>The prompt of the synthesis request.\<close>

definition sections_prompt_1 :: string where
  \<open>sections_prompt_1 =
     ''\<newline>'' @
     ''        You are an experienced team lead and the chief architect of the project. Your ta'' @
     ''sk is to generate the content of the sections of README.md.\<newline>'' @
     ''        Generate a JSON object that strictly follows the schema below. All text fields m'' @
     ''ust be in Russian.\<newline>''\<close>

definition sections_prompt_2 :: string where
  \<open>sections_prompt_2 =
     ''        Be as useful and informative as possible, as if you explained the project to a n'' @
     ''ew member of the team.\<newline>'' @
     ''        Avoid any wording that could hint that the text was generated by an AI. Write na'' @
     ''turally, like a human.\<newline>'' @
     ''\<newline>'' @
     ''        Information about the project, for the analysis:\<newline>'' @
     ''        Name of the repository: ''\<close>

definition sections_prompt_3 :: string where
  \<open>sections_prompt_3 =
     ''\<newline>'' @
     ''        URL of the repository: ''\<close>

definition sections_prompt_4 :: string where
  \<open>sections_prompt_4 =
     ''\<newline>'' @
     ''        Main languages (by number of files): ''\<close>

definition sections_prompt_5 :: string where
  \<open>sections_prompt_5 =
     ''\<newline>'' @
     ''        Last commit:\<newline>'' @
     ''            Message: ''\<close>

definition sections_prompt_6 :: string where
  \<open>sections_prompt_6 =
     ''\<newline>'' @
     ''            Author: ''\<close>

definition sections_prompt_7 :: string where
  \<open>sections_prompt_7 =
     ''\<newline>'' @
     ''            Date: ''\<close>

definition sections_prompt_8 :: string where
  \<open>sections_prompt_8 =
     ''\<newline>'' @
     ''\<newline>'' @
     ''        Analysis of the key files (use this information to write the sections):\<newline>'' @
     ''        ''\<close>

definition sections_prompt_9 :: string where
  \<open>sections_prompt_9 =
     ''\<newline>'' @
     ''\<newline>'' @
     ''        ---\<newline>'' @
     ''        Generate a JSON object with the content of the sections of README.md, following '' @
     ''the given schema.\<newline>'' @
     ''        ''\<close>

definition llm_prompt_for_sections :: "repo_info \<Rightarrow> string" where
  "llm_prompt_for_sections info =
     sections_prompt_1 @
     sections_prompt_2 @
     name info @
     sections_prompt_3 @
     remote_url info @
     sections_prompt_4 @
     (if language_stats info \<noteq> [] then str_join '', '' (map fst (language_stats info))
        else ''Not determined'') @
     sections_prompt_5 @
     commit_get (last_commit info) ''message'' ''unknown'' @
     sections_prompt_6 @
     commit_get (last_commit info) ''author'' ''unknown'' @
     sections_prompt_7 @
     commit_get (last_commit info) ''date'' ''unknown'' @
     sections_prompt_8 @
     format_files_analysis (files info) @
     sections_prompt_9"


text \<open>
  The section object: what \<^verbatim>\<open>json.loads\<close> returns for the answer, or, when it raises
  \<^verbatim>\<open>JSONDecodeError\<close>, the fallback object with its seven texts.
\<close>

definition required_sections :: "string list" where
  "required_sections =
     [''project_description'', ''project_overview_content'', ''features_content'',
      ''technologies_content'', ''installation_content'', ''usage_examples_content'',
      ''project_structure_description'']"

definition fallback_sections :: "(string \<times> json_value) list" where
  "fallback_sections =
     [(''project_description'', JString ''The description of the project could not be generated.''),
      (''project_overview_content'', JString ''The overview of the project could not be generated.''),
      (''features_content'', JString ''The features could not be generated.''),
      (''technologies_content'', JString ''The technology stack could not be generated.''),
      (''installation_content'', JString ''The installation instructions could not be generated.''),
      (''usage_examples_content'', JString ''The usage examples could not be generated.''),
      (''project_structure_description'', JString ''The description of the project structure could not be generated.'')]"


definition load_sections :: "(string \<Rightarrow> json_doc option) \<Rightarrow> string \<Rightarrow> json_doc" where
  "load_sections json_loads json_content_str =
     (case json_loads json_content_str of
        Some generated_sections \<Rightarrow> generated_sections
      | None \<Rightarrow> JObject fallback_sections)"

text \<open>
  \<^verbatim>\<open>generated_sections.get(key, default)\<close> inside the f-string of the template, for a
  dictionary: the value as the f-string prints it, or the default of this key.
\<close>

definition section_get :: "(string \<times> json_value) list \<Rightarrow> string \<Rightarrow> string \<Rightarrow> string" where
  "section_get d key dflt =
     (case map_of d key of
        None \<Rightarrow> dflt
      | Some (JString text) \<Rightarrow> text
      | Some (JNonString text) \<Rightarrow> text)"

text \<open>The default of each key in the template.\<close>

definition section_defaults :: "(string \<times> string) list" where
  "section_defaults =
     [(''project_description'', ''A short description of the project was not generated.''),
      (''project_overview_content'', ''The overview of the project was not generated.''),
      (''features_content'', ''The features were not generated.''),
      (''technologies_content'', ''The technology stack was not generated.''),
      (''installation_content'', ''The installation instructions were not generated.''),
      (''usage_examples_content'', ''The usage examples were not generated.''),
      (''project_structure_description'', ''The description of the project structure was not generated.'')]"


definition section_text :: "(string \<times> json_value) list \<Rightarrow> string \<Rightarrow> string" where
  "section_text d key =
     section_get d key (case map_of section_defaults key of None \<Rightarrow> [] | Some dflt \<Rightarrow> dflt)"

text \<open>
  The template. Its first part is an f-string with the name of the repository; the icons
  of the languages and the badges follow; the last part is an f-string with the seven
  sections. In an f-string \<^verbatim>\<open>{{\<close> and \<^verbatim>\<open>}}\<close> are the escapes for one brace each, so
  the three placeholders that the source writes \<^verbatim>\<open>{{project_structure_content}}\<close>,
  \<^verbatim>\<open>{{contributing_content}}\<close> and \<^verbatim>\<open>{{license_content}}\<close> stand in the template text
  with single braces.
\<close>

definition readme_head_1 :: string where
  \<open>readme_head_1 =
     ''\<newline>'' @
     ''<p align="center"><img src="https://i.gifer.com/GwyA.gif" width="200"/></p>\<newline>'' @
     ''<h3 align="center">check out my channels</h3>\<newline>'' @
     ''<div id="badges" align="center">\<newline>'' @
     ''    <a href="http://t.me/+13262155064">\<newline>''\<close>

definition readme_head_2 :: string where
  \<open>readme_head_2 =
     ''        <img src="https://w7.pngwing.com/pngs/1/41/png-transparent-telegram-button-icon.'' @
     ''png" alt="telegram Badge" height="30px"/>\<newline>'' @
     ''    </a>\<newline>'' @
     ''    <a href="https://www.youtube.com/@Mr.Helperus">\<newline>''\<close>

definition readme_head_3 :: string where
  \<open>readme_head_3 =
     ''        <img src="https://img.shields.io/badge/YouTube-red?style=for-the-badge&logo=yout'' @
     ''ube&logoColor=white" alt="YouTube Badge"/>\<newline>'' @
     ''    </a>\<newline>'' @
     ''    <a href="https://www.tiktok.com/@4elobrek9_original">\<newline>''\<close>

definition readme_head_4 :: string where
  \<open>readme_head_4 =
     ''        <img src="https://w7.pngwing.com/pngs/262/918/png-transparent-tiktok-button-icon'' @
     ''.png" alt="TikTok Badge" height="30px" />\<newline>'' @
     ''    </a>\<newline>'' @
     ''    <a href="https://discord.gg/qsvPPE9YvJ">\<newline>''\<close>

definition readme_head_5 :: string where
  \<open>readme_head_5 =
     ''        <img src="https://encrypted-tbn0.gstatic.com/images?q=tbn:ANd9GcTl21OxPjOzA5qABz'' @
     ''2Hle_7SoOxtIoOOsHXBQ&s" alt="Discord Badge" height="35px"/>\<newline>'' @
     ''    </a>\<newline>'' @
     ''</div>\<newline>'' @
     ''</p>\<newline>'' @
     ''<p align="center"><img src="https://komarev.com/ghpvc/?username=4elobre9&style=flat-squa'' @
     ''re&color=blue" alt=""></p>\<newline>''\<close>

definition readme_head_6 :: string where
  \<open>readme_head_6 =
     ''<h1 align="center">Hello, dear readers. <img src="https://media.giphy.com/media/hvRJCLFz'' @
     ''casrR4ia7z/giphy.gif" width="40"></h1>\<newline>'' @
     ''<p align="center"><img src="https://cdna.artstation.com/p/assets/images/images/028/102/0'' @
     ''58/original/pixel-jeff-matrix-s.gif?1593487263" width="600" height="300" /></p>\<newline>'' @
     ''\<newline>''\<close>

definition readme_head_7 :: string where
  \<open>readme_head_7 =
     ''### :woman_technologist: About Me :\<newline>'' @
     ''I am a Full Stack developer.\<newline>'' @
     ''- :trident: I work as a software engineer and contribute to the front end of web applica'' @
     ''tions. <img src="h" alt="" height="20px" />\<newline>''\<close>

definition readme_head_8 :: string where
  \<open>readme_head_8 =
     ''- :gear: I write bots for Discord and their back-end examples on my Discord server. <a h'' @
     ''ref="https://discord.gg/qsvPPE9YvJ">\<newline>'' @
     ''        <img src="https://encrypted-tbn0.gstatic.com/images?q=tbn:ANd9GcTT4je-CowV-arhhL'' @
     ''NwE84rd___C9IiS1-gHPxB_mM1oqbsAJEeX71iH5QHBZ28EhFhf68&usqp=CAU" alt="" height="20px" />\<newline>'' @
     ''    </a>\<newline>''\<close>

definition readme_head_9 :: string where
  \<open>readme_head_9 =
     ''- :zap: In my free time I solve problems on GeeksforGeeks and train my brain.\<newline>'' @
     ''\<newline>'' @
     ''---\<newline>'' @
     ''\<newline>'' @
     ''# ''\<close>

definition readme_head_10 :: string where
  \<open>readme_head_10 =
     ''\<newline>'' @
     ''<p>\<newline>''\<close>

definition readme_head :: "repo_info \<Rightarrow> string" where
  "readme_head info =
     readme_head_1 @ readme_head_2 @ readme_head_3 @ readme_head_4 @
     readme_head_5 @ readme_head_6 @ readme_head_7 @ readme_head_8 @
     readme_head_9 @ name info @ readme_head_10"

definition devicon_map :: "(string \<times> string) list" where
  "devicon_map =
     [(''Python'',
       ''https://github.com/devicons/devicon/blob/master/icons/python/python-original.svg?raw=true''),
      (''JavaScript'',
       ''https://github.com/devicons/devicon/blob/master/icons/javascript/javascript-original.svg?raw=true''),
      (''TypeScript'',
       ''https://github.com/devicons/devicon/blob/master/icons/typescript/typescript-original.svg?raw=true''),
      (''Java'',
       ''https://github.com/devicons/devicon/blob/master/icons/java/java-original-wordmark.svg?raw=true''),
      (''Go'',
       ''https://github.com/devicons/devicon/blob/master/icons/go/go-original.svg?raw=true''),
      (''Rust'',
       ''https://github.com/devicons/devicon/blob/master/icons/rust/rust-plain.svg?raw=true''),
      (''Ruby'',
       ''https://github.com/devicons/devicon/blob/master/icons/ruby/ruby-original.svg?raw=true''),
      (''PHP'',
       ''https://github.com/devicons/devicon/blob/master/icons/php/php-original.svg?raw=true''),
      (''HTML'',
       ''https://github.com/devicons/devicon/blob/master/icons/html5/html5-original.svg?raw=true''),
      (''CSS'',
       ''https://github.com/devicons/devicon/blob/master/icons/css3/css3-plain-wordmark.svg?raw=true''),
      (''React JSX'',
       ''https://github.com/devicons/devicon/blob/master/icons/react/react-original.svg?raw=true''),
      (''Vue.js'',
       ''https://github.com/devicons/devicon/blob/master/icons/vuejs/vuejs-original.svg?raw=true''),
      (''NodeJS'',
       ''https://github.com/devicons/devicon/blob/master/icons/nodejs/nodejs-original.svg?raw=true''),
      (''MySQL'',
       ''https://github.com/devicons/devicon/blob/master/icons/mysql/mysql-original-wordmark.svg?raw=true''),
      (''Git'',
       ''https://github.com/devicons/devicon/blob/master/icons/git/git-original-wordmark.svg?raw=true''),
      (''Spring'',
       ''https://github.com/devicons/devicon/blob/master/icons/spring/spring-original-wordmark.svg?raw=true''),
      (''Material UI'',
       ''https://github.com/devicons/devicon/blob/master/icons/materialui/materialui-original.svg?raw=true''),
      (''Flutter'',
       ''https://github.com/devicons/devicon/blob/master/icons/flutter/flutter-original.svg?raw=true''),
      (''Redux'',
       ''https://github.com/devicons/devicon/blob/master/icons/redux/redux-original.svg?raw=true''),
      (''Gatsby'',
       ''https://github.com/devicons/devicon/blob/master/icons/gatsby/gatsby-original.svg?raw=true''),
      (''AWS'',
       ''https://github.com/devicons/devicon/blob/master/icons/amazonwebservices/amazonwebservices-plain-wordmark.svg?raw=true''),
      (''Postman'',
       ''https://www.vectorlogo.zone/logos/getpostman/getpostman-icon.svg'')]"


definition language_icons :: "(string \<times> nat) list \<Rightarrow> string" where
  \<open>language_icons stats =
     concat (map (\<lambda>(lang, count).
                    case map_of devicon_map lang of
                      None \<Rightarrow> []
                    | Some url \<Rightarrow>
                        ''<img src="'' @ url @ ''" title="'' @ lang @ ''" alt="'' @ lang
                        @ ''" width="40" height="40"/> '') stats)
     @ ''\<newline></p>\<newline>\<newline>''\<close>

definition badges_1 :: string where
  \<open>badges_1 =
     ''\<newline>'' @
     ''![GitHub repo size](https://img.shields.io/github/repo-size/''\<close>

definition badges_2 :: string where
  \<open>badges_2 =
     ''/''\<close>

definition badges_3 :: string where
  \<open>badges_3 =
     '')\<newline>'' @
     ''![GitHub last commit](https://img.shields.io/github/last-commit/''\<close>

definition badges_4 :: string where
  \<open>badges_4 =
     ''/''\<close>

definition badges_5 :: string where
  \<open>badges_5 =
     '')\<newline>'' @
     ''![GitHub top language](https://img.shields.io/github/languages/top/''\<close>

definition badges_6 :: string where
  \<open>badges_6 =
     ''/''\<close>

definition badges_7 :: string where
  \<open>badges_7 =
     '')\<newline>''\<close>

definition github_badges :: "string \<Rightarrow> string \<Rightarrow> string" where
  "github_badges github_user github_repo_name =
     (if github_user \<noteq> [] \<and> github_repo_name \<noteq> [] then
        badges_1 @ github_user @ badges_2 @ github_repo_name @
        badges_3 @ github_user @ badges_4 @ github_repo_name @
        badges_5 @ github_user @ badges_6 @ github_repo_name @
        badges_7
      else [])"

definition readme_sections_1 :: string where
  \<open>readme_sections_1 =
     ''\<newline>'' @
     ''        \<newline>''\<close>

definition readme_sections_2 :: string where
  \<open>readme_sections_2 =
     ''\<newline>'' @
     ''\<newline>'' @
     ''## Contents\<newline>'' @
     ''\<newline>'' @
     ''- [Description](#description)\<newline>'' @
     ''- [Features](#features)\<newline>'' @
     ''- [Technology stack](#technology-stack)\<newline>'' @
     ''- [Installation](#installation)\<newline>'' @
     ''- [Usage examples](#usage-examples)\<newline>'' @
     ''- [License](#license)\<newline>'' @
     ''- [Contacts](#contacts)\<newline>'' @
     ''\<newline>'' @
     ''## Description\<newline>''\<close>

definition readme_sections_3 :: string where
  \<open>readme_sections_3 =
     ''\<newline>'' @
     ''\<newline>'' @
     ''## Features\<newline>''\<close>

definition readme_sections_4 :: string where
  \<open>readme_sections_4 =
     ''\<newline>'' @
     ''\<newline>'' @
     ''## Technology stack\<newline>''\<close>

definition readme_sections_5 :: string where
  \<open>readme_sections_5 =
     ''\<newline>'' @
     ''\<newline>'' @
     ''## Installation\<newline>''\<close>

definition readme_sections_6 :: string where
  \<open>readme_sections_6 =
     ''\<newline>'' @
     ''\<newline>'' @
     ''## Usage examples\<newline>''\<close>

definition readme_sections_7 :: string where
  \<open>readme_sections_7 =
     ''\<newline>'' @
     ''\<newline>'' @
     ''## Project structure\<newline>''\<close>

definition readme_sections_8 :: string where
  \<open>readme_sections_8 =
     ''\<newline>'' @
     ''{project_structure_content}\<newline>'' @
     ''\<newline>'' @
     ''## Contributing\<newline>'' @
     ''{contributing_content}\<newline>'' @
     ''\<newline>'' @
     ''## License\<newline>'' @
     ''{license_content}\<newline>'' @
     ''\<newline>'' @
     ''## Contacts\<newline>'' @
     ''- **TELEGRAM**: [4elobrek9](http://t.me/+13262155064)\<newline>'' @
     ''- **GitHub**: [4elobrek9](https://github.com/4elobrek9)\<newline>''\<close>

definition readme_sections_9 :: string where
  \<open>readme_sections_9 =
     ''- **Discord**: [qsvPPE9YvJ](https://discord.gg/qsvPPE9YvJ)\<newline>'' @
     ''- **TikTok**: [4elobrek9_original](https://www.tiktok.com/@4elobrek9_original)\<newline>'' @
     ''\<newline>'' @
     ''---\<newline>'' @
     ''\<newline>'' @
     ''### :fire: My Stats :\<newline>''\<close>

definition readme_sections_10 :: string where
  \<open>readme_sections_10 =
     ''[![Top Langs](https://github-readme-stats.vercel.app/api/top-langs/?username=4elobre9&la'' @
     ''yout=compact&theme=vision-friendly-dark)](https://github.com/anuraghazra/github-readme-s'' @
     ''tats)\<newline>'' @
     ''\<newline>'' @
     ''---\<newline>'' @
     ''\<newline>'' @
     ''### :writing_hand: Blog Posts : \<newline>''\<close>

definition readme_sections_11 :: string where
  \<open>readme_sections_11 =
     ''- [Help me understand this software. I wrote it in delirium](https://github.com/4elobrek'' @
     ''9/JARVIS)\<newline>'' @
     ''\<newline>'' @
     ''---\<newline>'' @
     ''\<newline>'' @
     ''Thank you for your attention! I hope you will find this repository useful!\<newline>''\<close>

definition readme_sections_12 :: string where
  \<open>readme_sections_12 =
     ''<p align="center"><img src="https://media.giphy.com/media/LnQJEfWOk1Zprd6IA/giphy.gif" w'' @
     ''idth="50"></p>\<newline>''\<close>

definition readme_sections :: "(string \<times> json_value) list \<Rightarrow> string" where
  "readme_sections d =
     readme_sections_1 @ section_text d ''project_description'' @
     readme_sections_2 @ section_text d ''project_overview_content'' @
     readme_sections_3 @ section_text d ''features_content'' @
     readme_sections_4 @ section_text d ''technologies_content'' @
     readme_sections_5 @ section_text d ''installation_content'' @
     readme_sections_6 @ section_text d ''usage_examples_content'' @
     readme_sections_7 @ section_text d ''project_structure_description'' @
     readme_sections_8 @ readme_sections_9 @
     readme_sections_10 @ readme_sections_11 @
     readme_sections_12"


text \<open>
  On a value that is not a dictionary the first \<^verbatim>\<open>generated_sections.get\<close> raises
  \<^verbatim>\<open>AttributeError\<close>, which nothing in \<^verbatim>\<open>generate_readme\<close> catches.
\<close>

definition readme_template :: "repo_info \<Rightarrow> string \<Rightarrow> string \<Rightarrow> json_doc \<Rightarrow> exn + string" where
  "readme_template info github_user github_repo_name generated_sections =
     (case generated_sections of
        JNotObject \<Rightarrow> Inl AttributeError
      | JObject d \<Rightarrow>
          Inr (readme_head info @ language_icons (language_stats info)
               @ github_badges github_user github_repo_name @ readme_sections d))"

text \<open>\<^verbatim>\<open>_postprocess_readme\<close>: the three substitutions, each under its test.\<close>

definition contributing_text :: string where
  \<open>contributing_text =
     ''We welcome contributions to this project! If you want to contribute, please follow these'' @
     '' recommendations:\<newline>'' @
     ''<ol>\<newline>'' @
     ''    <li>Fork the repository.</li>\<newline>'' @
     ''    <li>Create a new branch for your changes: <code>git checkout -b feature/your-feature'' @
     ''-name</code></li>\<newline>'' @
     ''    <li>Make your changes and commit them: <code>git commit -m "Add new feature"</code><'' @
     ''/li>\<newline>'' @
     ''    <li>Push the changes to your fork: <code>git push origin feature/your-feature-name</'' @
     ''code></li>\<newline>'' @
     ''    <li>Create a Pull Request.</li>\<newline>'' @
     ''</ol>\<newline>'' @
     ''We are always glad of new ideas and of help in developing the project!''\<close>


definition license_found_text :: "file_info \<Rightarrow> repo_info \<Rightarrow> string" where
  "license_found_text file info =
     ''This project is licensed under the license given in the file [`'' @ path file @ ''`]('' @ remote_url info
     @ ''/blob/main/'' @ path file @ '').''"

definition license_default_text :: string where
  "license_default_text =
     ''This project is licensed under the MIT license. The details can be found in the file [LI'' @
     ''CENSE](LICENSE).''"


definition postprocess_readme :: "documenter \<Rightarrow> string \<Rightarrow> repo_info \<Rightarrow> string" where
  "postprocess_readme self txt info =
     (let final_readme = txt;
          final_readme =
            (if sublist ''{{project_structure_content}}'' final_readme
             then str_replace final_readme ''{{project_structure_content}}'' (project_structure_str self)
             else final_readme);
          final_readme =
            (if sublist ''{{contributing_content}}'' final_readme
             then str_replace final_readme ''{{contributing_content}}'' contributing_text
             else final_readme);
          final_readme =
            (if sublist ''{{license_content}}'' final_readme
             then (case find (\<lambda>file. str_lower (path file) = ''license'') (files info) of
                     Some file \<Rightarrow>
                       str_replace final_readme ''{{license_content}}'' (license_found_text file info)
                   | None \<Rightarrow> str_replace final_readme ''{{license_content}}'' license_default_text)
             else final_readme)
      in final_readme)"

text \<open>
  \<^verbatim>\<open>generate_readme\<close>: the analysis of every file, the synthesis request, the section
  object, the template and its post-processing. The result is the document, or the
  exception that leaves the function; the requests sent are returned with it.
\<close>

definition generate_readme ::
  "endpoint \<Rightarrow> (string \<Rightarrow> json_doc option) \<Rightarrow> (string \<Rightarrow> string) \<Rightarrow> documenter \<Rightarrow> repo_info
     \<Rightarrow> request_log \<Rightarrow> (exn + string) \<times> request_log"
where
  "generate_readme ep json_loads urlparse_path self info sent =
     (let (analysed, sent1) = analyze_files ep (files info) sent;
          info1 = info\<lparr>files := analysed\<rparr>;
          (github_user, github_repo_name) = github_parts urlparse_path (remote_url info1);
          (json_content_str, sent2) = analyze_with_llm ep (llm_prompt_for_sections info1) sent1;
          generated_sections = load_sections json_loads json_content_str
      in (case readme_template info1 github_user github_repo_name generated_sections of
            Inl e \<Rightarrow> Inl e
          | Inr readme_template_content \<Rightarrow>
              Inr (postprocess_readme self readme_template_content info1),
          sent2))"

section \<open>The steps of generate_readme\<close>




section \<open>Adjacent characters\<close>

text \<open>
  For the statements about a document that is a concatenation of many texts:
  \<open>pair_free a b s\<close> holds when \<open>a\<close> is nowhere in \<open>s\<close> followed by \<open>b\<close> and \<open>s\<close> does
  not end with \<open>a\<close>, which is kept by concatenation.
\<close>

fun pair_free :: "char \<Rightarrow> char \<Rightarrow> string \<Rightarrow> bool" where
  "pair_free a b [] = True"
| "pair_free a b [x] = (x \<noteq> a)"
| "pair_free a b (x # y # s) = (\<not> (x = a \<and> y = b) \<and> pair_free a b (y # s))"

section \<open>Concrete inputs\<close>

text \<open>An endpoint that is down, and one that answers every request with the text \<open>ok\<close>.\<close>

definition endpoint_down :: endpoint where
  "endpoint_down k prompt = RequestFailed"

definition endpoint_ok :: endpoint where
  "endpoint_ok k prompt = Response 200 (Some (JObject [(''response'', JString ''ok'')]))"


text \<open>An endpoint that answers the first two requests and fails from the third on.\<close>

definition endpoint_two :: endpoint where
  "endpoint_two k prompt =
     (if k < 2 then Response 200 (Some (JObject [(''response'', JString ''part'')]))
      else RequestFailed)"

text \<open>A Python file of one chunk, and one of 5001 characters, which makes two chunks.\<close>

definition small_file :: file_info where
  "small_file = \<lparr>path = ''a.py'', extension = ''.py'', language = ''Python'',
     content = Some ''import os'', analysis = None, combine_message = None\<rparr>"

definition long_file :: file_info where
  "long_file = \<lparr>path = ''b.py'', extension = ''.py'', language = ''Python'',
     content = Some (replicate 5001 (CHR ''x'')), analysis = None, combine_message = None\<rparr>"

definition json_file :: file_info where
  "json_file = \<lparr>path = ''b.json'', extension = ''.json'', language = ''JSON'',
     content = Some ''{}'', analysis = None, combine_message = None\<rparr>"

definition empty_file :: file_info where
  "empty_file = \<lparr>path = ''empty.py'', extension = ''.py'', language = ''Python'',
     content = Some [], analysis = None, combine_message = None\<rparr>"



text \<open>
  A working tree where every exclusion rule has something to exclude: a \<^verbatim>\<open>README.md\<close>
  beside \<^verbatim>\<open>main.py\<close>, and the directories \<^verbatim>\<open>.git\<close> and \<^verbatim>\<open>node_modules\<close>.
\<close>

definition ignored_repo :: documenter where
  "ignored_repo = \<lparr>repo_path = ''repo'',
     tree = Dir [] [Dir ''.git'' [] [(''HEAD'', Some ''ref: refs/heads/main'')],
                    Dir ''node_modules'' [] [(''lib.js'', Some ''module.exports = 1'')]]
              [(''README.md'', Some ''# repo''), (''main.py'', Some ''import os'')],
     origin_url = [], head_commit = []\<rparr>"

text \<open>
  The repository of the scenario of the specification: \<^verbatim>\<open>a.py\<close>, \<^verbatim>\<open>b.json\<close> and
  \<^verbatim>\<open>LICENSE\<close>, with no remote and no commit.
\<close>

definition scenario_repo :: documenter where
  "scenario_repo = \<lparr>repo_path = ''repo'',
     tree = Dir [] [] [(''a.py'', Some ''import os''), (''b.json'', Some ''{}''),
                       (''LICENSE'', Some ''MIT License'')],
     origin_url = [], head_commit = []\<rparr>"

text \<open>
  A decoder that agrees with \<^verbatim>\<open>json.loads\<close> on the two texts it is used on below: the
  empty text is not JSON, and the answer \<open>partial_answer\<close> is an object with one of the
  seven keys.
\<close>

definition partial_answer :: string where
  \<open>partial_answer = ''{"project_description": "A tool that documents repositories."}''\<close>

definition partial_sections :: "(string \<times> json_value) list" where
  "partial_sections = [(''project_description'', JString ''A tool that documents repositories.'')]"

definition json_loads_demo :: "string \<Rightarrow> json_doc option" where
  "json_loads_demo s = (if s = partial_answer then Some (JObject partial_sections) else None)"

text \<open>
  The run on the repository of the scenario while the endpoint is down: the dictionary of
  \<^verbatim>\<open>get_repo_info\<close> and the result of \<^verbatim>\<open>generate_readme\<close>. The repository has no remote
  URL, so \<^verbatim>\<open>urlparse\<close> is not called. \<open>license_file\<close> is the descriptor that a scan
  would build for the file \<^verbatim>\<open>LICENSE\<close> if the file were not ignored.
\<close>

definition scenario_info :: repo_info where
  "scenario_info = get_repo_info (\<lambda>url. []) scenario_repo"

definition scenario_document :: "exn + string" where
  "scenario_document =
     fst (generate_readme endpoint_down json_loads_demo (\<lambda>url. []) scenario_repo scenario_info [])"

definition license_file :: file_info where
  "license_file = scan_file ''repo'' ''repo'' (''LICENSE'', Some ''MIT License'')"

text \<open>The template of this run, before \<^verbatim>\<open>_postprocess_readme\<close>.\<close>

definition scenario_template :: string where
  "scenario_template =
     readme_head scenario_info @ language_icons (language_stats scenario_info)
     @ github_badges [] [] @ readme_sections fallback_sections"

text \<open>A repository with a file whose name is the text of the first placeholder.\<close>

definition token_repo :: documenter where
  "token_repo = \<lparr>repo_path = ''repo'',
     tree = Dir [] [] [(''{{project_structure_content}}'', Some ''x'')],
     origin_url = [], head_commit = []\<rparr>"




section \<open>The chunk split\<close>

lemma concat_slices:
  "concat (map (\<lambda>k. take n (drop (k * n) xs)) [0 ..< m]) = take (m * n) xs"
proof (induction m)
  case 0
  show ?case by simp
next
  case (Suc m)
  have "take (m * n) xs @ take n (drop (m * n) xs) = take (m * n + n) xs"
    by (simp add: take_add)
  with Suc show ?case by (simp add: add.commute)
qed

lemma chunks_of_alt:
  "chunks_of txt =
     map (\<lambda>k. take max_chunk_size (drop (k * max_chunk_size) txt))
       [0 ..< (length txt + max_chunk_size - 1) div max_chunk_size]"
  by (simp add: chunks_of_def range_step_def slice_def comp_def)

lemma ceiling_div_nat:
  assumes "0 < c"
  shows "nat \<lceil>real l / real c\<rceil> = (l + c - 1) div c"
proof -
  let ?q = "(l + c - 1) div c"
  have le: "l \<le> ?q * c"
  proof -
    have "(l + c - 1) mod c \<le> c - 1"
      using assms by (metis Suc_pred' less_Suc_eq_le mod_less_divisor)
    moreover have "?q * c + (l + c - 1) mod c = l + c - 1"
      by simp
    ultimately show ?thesis using assms by linarith
  qed
  have lt: "?q * c < l + c"
  proof -
    have "?q * c \<le> l + c - 1"
      by (metis div_mult_mod_eq le_add1)
    then show ?thesis using assms by linarith
  qed
  have "real l / real c \<le> real ?q"
    using le assms by (simp add: pos_divide_le_eq flip: of_nat_mult)
  moreover have "real ?q - 1 < real l / real c"
  proof -
    have "real (?q * c) < real l + real c"
      using lt by (metis of_nat_add of_nat_less_iff)
    then have "(real ?q - 1) * real c < real l"
      by (simp add: algebra_simps)
    then show ?thesis using assms by (simp add: pos_less_divide_eq)
  qed
  ultimately have "\<lceil>real l / real c\<rceil> = int ?q"
    by (intro ceiling_unique) simp_all
  then show ?thesis by simp
qed

text \<open>
  C7. For every content of length \<open>L\<close> (the non-empty ones in particular) the split yields
  \<open>ceil(L / max_chunk_size)\<close> chunks, each of length at most \<open>max_chunk_size\<close>; chunk
  \<open>k\<close> is the slice of the content from \<open>k * max_chunk_size\<close> up to the next multiple
  (sequential, non-overlapping), and the chunks concatenated in order give back the content.
\<close>

theorem chunks_of_split:
  "length (chunks_of txt) = nat \<lceil>real (length txt) / real max_chunk_size\<rceil>
   \<and> (\<forall>c \<in> set (chunks_of txt). length c \<le> max_chunk_size)
   \<and> (\<forall>k < length (chunks_of txt).
        chunks_of txt ! k
          = slice txt (k * max_chunk_size) (k * max_chunk_size + max_chunk_size))
   \<and> concat (chunks_of txt) = txt"
proof -
  have pos: "0 < max_chunk_size" by (simp add: max_chunk_size_def)
  let ?m = "(length txt + max_chunk_size - 1) div max_chunk_size"
  have len: "length (chunks_of txt) = ?m"
    by (simp add: chunks_of_alt)
  have cover: "length txt \<le> ?m * max_chunk_size"
  proof -
    have "(length txt + max_chunk_size - 1) mod max_chunk_size \<le> max_chunk_size - 1"
      using pos by (metis Suc_pred' less_Suc_eq_le mod_less_divisor)
    moreover have "?m * max_chunk_size + (length txt + max_chunk_size - 1) mod max_chunk_size
        = length txt + max_chunk_size - 1"
      by simp
    ultimately show ?thesis using pos by linarith
  qed
  have "concat (chunks_of txt) = take (?m * max_chunk_size) txt"
    unfolding chunks_of_alt by (rule concat_slices)
  with cover have cat: "concat (chunks_of txt) = txt" by simp
  have each: "\<forall>c \<in> set (chunks_of txt). length c \<le> max_chunk_size"
    by (auto simp: chunks_of_alt)
  have nth: "\<forall>k < length (chunks_of txt).
        chunks_of txt ! k
          = slice txt (k * max_chunk_size) (k * max_chunk_size + max_chunk_size)"
    by (simp add: chunks_of_alt slice_def)
  from len ceiling_div_nat [OF pos, of "length txt"] each nth cat show ?thesis
    by simp
qed

theorem chunks_of_split_witness:
  "length (chunks_of ''import os'') = nat \<lceil>real (length ''import os'') / real max_chunk_size\<rceil>
   \<and> chunks_of ''import os'' = [''import os'']
   \<and> length (chunks_of ''import os'' ! 0) \<le> max_chunk_size
   \<and> concat (chunks_of ''import os'') = ''import os''"
proof -
  have "chunks_of ''import os'' = [''import os'']"
    by (simp add: chunks_of_alt max_chunk_size_def)
  with chunks_of_split [of "''import os''"] show ?thesis
    by (simp add: max_chunk_size_def)
qed

section \<open>The language model client\<close>

lemma try_request_ok [simp]:
  "try_request (Response 200 (Some (JObject [(''response'', JString ''ok'')]))) = ''ok''"
  by (simp add: try_request_def post_and_read_def raise_for_status_def str_strip_def is_space_def)

lemma try_request_part [simp]:
  "try_request (Response 200 (Some (JObject [(''response'', JString ''part'')]))) = ''part''"
  by (simp add: try_request_def post_and_read_def raise_for_status_def str_strip_def is_space_def)

lemma try_request_failed [simp]: "try_request RequestFailed = []"
  by (simp add: try_request_def post_and_read_def)




section \<open>The per-file analyzer\<close>

lemma analyze_chunks_eq:
  "analyze_chunks ep template chunks analysis_results sent =
     (analysis_results @ filter (\<lambda>a. a \<noteq> []) (chunk_answers ep template chunks (length sent)),
      sent @ map (chunk_prompt template) chunks)"
proof (induction chunks arbitrary: analysis_results sent)
  case Nil
  show ?case by (simp add: chunk_answers_def)
next
  case (Cons chunk chunks)
  show ?case
    by (simp add: Cons.IH analyze_with_llm_def chunk_answers_def)
qed

lemma analyze_file_skip:
  "skips_analysis file_info \<Longrightarrow> analyze_file ep file_info sent = (file_info, sent)"
  by (simp add: analyze_file_def)

lemma analyze_file_run:
  assumes "\<not> skips_analysis file_info"
  shows "analyze_file ep file_info sent =
     (let analysis_results = chunk_results ep file_info (length sent);
          sent1 = sent @ chunk_requests file_info
      in if length analysis_results > 1 then
           (file_info\<lparr>analysis := Some (try_request (ep (length sent1) (combine_prompt analysis_results))),
              combine_message := Some (Some (combine_message_text analysis_results file_info))\<rparr>,
            sent1 @ [combine_prompt analysis_results])
         else if analysis_results \<noteq> [] then
           (file_info\<lparr>analysis := Some (hd analysis_results), combine_message := Some None\<rparr>, sent1)
         else
           (file_info\<lparr>analysis := Some analysis_failed, combine_message := Some None\<rparr>, sent1))"
  using assms
  by (simp add: analyze_file_def analyze_chunks_eq chunk_results_def chunk_requests_def
      file_chunks_def analyze_with_llm_def Let_def)




lemma small_file_runs: "\<not> skips_analysis small_file"
  by (simp add: skips_analysis_def small_file_def skipped_languages_def)

lemma long_file_runs: "\<not> skips_analysis long_file"
  by (simp add: skips_analysis_def long_file_def skipped_languages_def)

lemma small_file_chunks: "file_chunks small_file = [''import os'']"
  by (simp add: file_chunks_def small_file_def chunks_of_alt max_chunk_size_def)

lemma long_file_chunks:
  "file_chunks long_file = [replicate 5000 (CHR ''x''), replicate 1 (CHR ''x'')]"
  by (simp add: file_chunks_def long_file_def chunks_of_alt max_chunk_size_def upt_rec)

lemma small_file_results:
  "chunk_results endpoint_ok small_file n = [''ok'']"
  "chunk_results endpoint_down small_file n = []"
  by (simp_all add: chunk_results_def chunk_answers_def small_file_chunks endpoint_ok_def
      endpoint_down_def)

lemma long_file_results:
  "chunk_results endpoint_ok long_file n = [''ok'', ''ok'']"
  "chunk_results endpoint_two long_file 0 = [''part'', ''part'']"
  by (simp_all add: chunk_results_def chunk_answers_def long_file_chunks endpoint_ok_def
      endpoint_two_def)

lemma long_file_requests: "length (chunk_requests long_file) = 2"
  by (simp add: chunk_requests_def long_file_chunks)

text \<open>
  C4 (amended). For a file that is analysed, let the results be the non-empty answers to
  its chunk requests, in the order of the chunks. With more than one result, exactly one
  further request is sent after the chunk requests, its prompt holds the results joined in
  that order, and its answer (an empty one included) is stored as the analysis. With
  exactly one result no further request is sent and the result is stored as it is. With
  no result the fixed failure text is stored.
\<close>

theorem analyze_file_consolidation:
  assumes "\<not> skips_analysis file_info"
  shows "(1 < length (chunk_results ep file_info (length sent)) \<longrightarrow>
           snd (analyze_file ep file_info sent)
             = sent @ chunk_requests file_info
                 @ [combine_prompt (chunk_results ep file_info (length sent))]
         \<and> sublist (str_join ''\<newline>'' (chunk_results ep file_info (length sent)))
              (combine_prompt (chunk_results ep file_info (length sent)))
         \<and> analysis (fst (analyze_file ep file_info sent))
             = Some (try_request (ep (length sent + length (chunk_requests file_info))
                       (combine_prompt (chunk_results ep file_info (length sent))))))
       \<and> (length (chunk_results ep file_info (length sent)) = 1 \<longrightarrow>
           snd (analyze_file ep file_info sent) = sent @ chunk_requests file_info
         \<and> analysis (fst (analyze_file ep file_info sent))
             = Some (hd (chunk_results ep file_info (length sent))))
       \<and> (chunk_results ep file_info (length sent) = [] \<longrightarrow>
           snd (analyze_file ep file_info sent) = sent @ chunk_requests file_info
         \<and> analysis (fst (analyze_file ep file_info sent)) = Some analysis_failed)"
proof -
  have "sublist (str_join ''\<newline>'' rs) (combine_prompt rs)" for rs
    unfolding combine_prompt_def by (rule sublist_appendI)
  then show ?thesis
    using assms by (auto simp: analyze_file_run Let_def)
qed



theorem analyze_file_consolidation_witness:
  "\<not> skips_analysis long_file
   \<and> snd (analyze_file endpoint_ok long_file [])
       = chunk_requests long_file @ [combine_prompt [''ok'', ''ok'']]
   \<and> analysis (fst (analyze_file endpoint_ok long_file [])) = Some ''ok''
   \<and> \<not> skips_analysis small_file
   \<and> snd (analyze_file endpoint_ok small_file []) = chunk_requests small_file
   \<and> analysis (fst (analyze_file endpoint_ok small_file [])) = Some ''ok''
   \<and> snd (analyze_file endpoint_down small_file []) = chunk_requests small_file
   \<and> analysis (fst (analyze_file endpoint_down small_file [])) = Some analysis_failed"
  using analyze_file_consolidation [OF long_file_runs, of endpoint_ok "[]"]
    analyze_file_consolidation [OF small_file_runs, of endpoint_ok "[]"]
    analyze_file_consolidation [OF small_file_runs, of endpoint_down "[]"]
  by (simp add: long_file_results small_file_results long_file_runs small_file_runs
      endpoint_ok_def)

text \<open>
  C4 as stated also says that the analysis of an analysed file is never left empty. It
  is when the consolidation request fails: two chunks answered, the third request (the
  consolidation) not.
\<close>

theorem analyze_file_empty_analysis:
  "\<not> skips_analysis long_file
   \<and> length (chunk_results endpoint_two long_file 0) = 2
   \<and> analysis (fst (analyze_file endpoint_two long_file [])) = Some []"
  by (simp add: analyze_file_run [OF long_file_runs] long_file_results long_file_runs
      long_file_requests endpoint_two_def Let_def)



text \<open>
  C8. For a descriptor whose content is absent, or whose language is JSON, YAML, TOML,
  Markdown or Unknown, \<^verbatim>\<open>analyze_file\<close> sends no request and returns the descriptor as
  it is, its analysis still \<open>None\<close>.
\<close>

theorem analyze_file_skips:
  assumes "content file_info = None
           \<or> language file_info \<in> {''JSON'', ''YAML'', ''TOML'', ''Markdown'', ''Unknown''}"
      and "analysis file_info = None"
  shows "analyze_file ep file_info sent = (file_info, sent)
         \<and> analysis (fst (analyze_file ep file_info sent)) = None"
proof -
  from assms(1) have "skips_analysis file_info"
    by (auto simp: skips_analysis_def skipped_languages_def)
  with assms(2) show ?thesis by (simp add: analyze_file_skip)
qed

theorem analyze_file_skips_witness:
  "language json_file \<in> {''JSON'', ''YAML'', ''TOML'', ''Markdown'', ''Unknown''}
   \<and> analysis json_file = None
   \<and> analyze_file endpoint_ok json_file [] = (json_file, [])
   \<and> analysis (fst (analyze_file endpoint_ok json_file [])) = None"
proof -
  have l: "language json_file \<in> {''JSON'', ''YAML'', ''TOML'', ''Markdown'', ''Unknown''}"
    by (simp add: json_file_def)
  have a: "analysis json_file = None"
    by (simp add: json_file_def)
  from analyze_file_skips [OF disjI2, OF l a, of endpoint_ok "[]"] l a show ?thesis
    by simp
qed

text \<open>
  C10. A file whose content was read as the empty string is skipped like a file whose
  content is absent: no request is sent and the analysis stays \<open>None\<close>.
\<close>

theorem analyze_file_empty_content:
  assumes "content file_info = Some []" and "analysis file_info = None"
  shows "analyze_file ep file_info sent = (file_info, sent)
         \<and> analysis (fst (analyze_file ep file_info sent)) = None
         \<and> analyze_file ep (file_info\<lparr>content := None\<rparr>) sent
             = (file_info\<lparr>content := None\<rparr>, sent)
         \<and> analysis (fst (analyze_file ep (file_info\<lparr>content := None\<rparr>) sent)) = None"
  using assms by (simp add: analyze_file_skip skips_analysis_def)

theorem analyze_file_empty_content_witness:
  "content empty_file = Some [] \<and> analysis empty_file = None
   \<and> language empty_file \<notin> set skipped_languages
   \<and> analyze_file endpoint_ok empty_file [] = (empty_file, [])
   \<and> analysis (fst (analyze_file endpoint_ok empty_file [])) = None"
proof -
  have c: "content empty_file = Some []" and a: "analysis empty_file = None"
    by (simp_all add: empty_file_def)
  have "language empty_file \<notin> set skipped_languages"
    by (simp add: empty_file_def skipped_languages_def)
  with analyze_file_empty_content [OF c a, of endpoint_ok "[]"] c a show ?thesis
    by simp
qed

lemma analyze_file_fields:
  "path (fst (analyze_file ep file_info sent)) = path file_info
   \<and> extension (fst (analyze_file ep file_info sent)) = extension file_info
   \<and> language (fst (analyze_file ep file_info sent)) = language file_info
   \<and> content (fst (analyze_file ep file_info sent)) = content file_info"
  by (cases "skips_analysis file_info") (simp_all add: analyze_file_skip analyze_file_run Let_def)

lemma analyze_file_scanned_fields:
  "scanned_fields (fst (analyze_file ep file_info sent)) = scanned_fields file_info"
  by (simp add: scanned_fields_def analyze_file_fields)

lemma analyze_files_fields:
  "map scanned_fields (fst (analyze_files ep fls sent)) = map scanned_fields fls"
proof (induction fls arbitrary: sent)
  case Nil
  show ?case by simp
next
  case (Cons file_info fls)
  show ?case
    by (simp add: split_beta Cons.IH analyze_file_scanned_fields)
qed

text \<open>
  C9 (amended). \<^verbatim>\<open>analyze_file\<close> never changes the path, the extension, the language
  or the content of a descriptor, and neither does the loop over all files. A skipped
  descriptor is returned as it is. For an analysed descriptor the analysis is written and
  the key \<^verbatim>\<open>_combine_message\<close> is added.
\<close>

theorem analyze_file_frame:
  "scanned_fields (fst (analyze_file ep file_info sent)) = scanned_fields file_info
   \<and> (skips_analysis file_info \<longrightarrow> fst (analyze_file ep file_info sent) = file_info)
   \<and> (\<not> skips_analysis file_info \<longrightarrow>
        analysis (fst (analyze_file ep file_info sent)) \<noteq> None
        \<and> combine_message (fst (analyze_file ep file_info sent)) \<noteq> None)
   \<and> map scanned_fields (fst (analyze_files ep fls sent)) = map scanned_fields fls"
  by (simp add: analyze_files_fields analyze_file_scanned_fields analyze_file_skip
      analyze_file_run Let_def)

theorem analyze_file_frame_witness:
  "\<not> skips_analysis small_file
   \<and> scanned_fields (fst (analyze_file endpoint_ok small_file [])) = scanned_fields small_file
   \<and> analysis (fst (analyze_file endpoint_ok small_file [])) \<noteq> None
   \<and> combine_message (fst (analyze_file endpoint_ok small_file [])) \<noteq> None
   \<and> skips_analysis json_file
   \<and> fst (analyze_file endpoint_ok json_file []) = json_file"
proof -
  have "skips_analysis json_file"
    by (simp add: skips_analysis_def json_file_def skipped_languages_def)
  with analyze_file_frame [of endpoint_ok small_file "[]" "[]"]
    analyze_file_frame [of endpoint_ok json_file "[]" "[]"] small_file_runs
  show ?thesis by simp
qed

text \<open>
  C9 as stated says that no key is added to a descriptor after the scan. The key
  \<^verbatim>\<open>_combine_message\<close> is added to every analysed descriptor.
\<close>

theorem analyze_file_adds_key:
  "combine_message small_file = None
   \<and> combine_message (fst (analyze_file endpoint_ok small_file [])) = Some None"
proof -
  have "combine_message small_file = None"
    by (simp add: small_file_def)
  then show ?thesis
    by (simp add: analyze_file_run [OF small_file_runs] small_file_results Let_def)
qed

section \<open>The three walks over the repository\<close>

lemma ignored_repo_walks:
  "os_walk keep_dir ''repo'' (tree ignored_repo)
   = [(''repo'', [], [(''README.md'', Some ''# repo''), (''main.py'', Some ''import os'')])]"
  "os_walk (\<lambda>d. True) ''repo'' (tree ignored_repo)
   = [(''repo'', [''.git'', ''node_modules''],
         [(''README.md'', Some ''# repo''), (''main.py'', Some ''import os'')]),
      (''repo/.git'', [], [(''HEAD'', Some ''ref: refs/heads/main'')]),
      (''repo/node_modules'', [], [(''lib.js'', Some ''module.exports = 1'')])]"
  by (simp_all add: ignored_repo_def keep_dir_def ignore_dirs_def path_join_def)

lemma ignored_repo_ext:
  "str_lower (splitext_ext ''README.md'') = ''.md''"
  "str_lower (splitext_ext ''main.py'') = ''.py''"
  by (simp_all add: splitext_ext_def str_lower_def lower_char_def upper_chars_def
      lower_chars_def)

lemma ignored_repo_keep:
  "\<not> keep_file ''README.md''" "keep_file ''main.py''" "keep_file ''HEAD''" "keep_file ''lib.js''"
  by (simp_all add: keep_file_def ignore_files_def)

lemma ignored_repo_entries:
  "structure_entry ''repo''
     (''repo'', [''.git'', ''node_modules''],
      [(''README.md'', Some ''# repo''), (''main.py'', Some ''import os'')])
   = ''repo/\<newline>    main.py\<newline>''"
  "structure_entry ''repo'' (''repo/.git'', [], [(''HEAD'', Some ''ref: refs/heads/main'')])
   = ''    .git/\<newline>        HEAD\<newline>''"
  "structure_entry ''repo'' (''repo/node_modules'', [], [(''lib.js'', Some ''module.exports = 1'')])
   = ''    node_modules/\<newline>        lib.js\<newline>''"
  by (simp_all add: structure_entry_def structure_files_def ignored_repo_keep str_replace_def
      str_count_def basename_def Let_def numeral_eq_Suc)

text \<open>
  C1, on a working tree with \<^verbatim>\<open>README.md\<close>, \<^verbatim>\<open>main.py\<close> and the directories
  \<^verbatim>\<open>.git\<close> and \<^verbatim>\<open>node_modules\<close>. The three walks take three different sets of files:
  the listing holds \<^verbatim>\<open>main.py\<close> alone; the language statistics count two files, the
  ignored \<^verbatim>\<open>README.md\<close> among them; the directory tree lists \<^verbatim>\<open>main.py\<close> and the
  files of the two ignored directories.
\<close>

theorem walks_disagree:
  "map path (scan_repository ignored_repo) = [''main.py'']
   \<and> get_language_stats ignored_repo = [(''Markdown'', 1), (''Python'', 1)]
   \<and> project_structure_str ignored_repo
       = ''```\<newline>repo/\<newline>    main.py\<newline>    .git/\<newline>        HEAD\<newline>    node_modules/\<newline>        lib.js\<newline>```\<newline>''"
proof -
  have p: "repo_path ignored_repo = ''repo''"
    by (simp add: ignored_repo_def)
  have "map path (scan_repository ignored_repo) = [''main.py'']"
    by (simp add: scan_repository_def p ignored_repo_walks ignored_repo_keep scan_file_def
        Let_def path_join_def relpath_def)
  moreover have "get_language_stats ignored_repo = [(''Markdown'', 1), (''Python'', 1)]"
    by (simp add: get_language_stats_def p ignored_repo_walks count_file_def ignored_repo_ext
        file_extensions_def tally_def)
  moreover have "project_structure_str ignored_repo
       = ''```\<newline>repo/\<newline>    main.py\<newline>    .git/\<newline>        HEAD\<newline>    node_modules/\<newline>        lib.js\<newline>```\<newline>''"
    by (simp add: project_structure_str_def p ignored_repo_walks ignored_repo_entries)
  ultimately show ?thesis by simp
qed

section \<open>Texts without a pair of adjacent characters\<close>

lemma pair_free_append:
  "pair_free a b xs \<Longrightarrow> pair_free a b ys \<Longrightarrow> pair_free a b (xs @ ys)"
proof (induction a b xs rule: pair_free.induct)
  case (1 a b)
  then show ?case by simp
next
  case (2 a b x)
  then show ?case by (cases ys) auto
next
  case (3 a b x y s)
  then show ?case by auto
qed

lemma pair_free_prefix: "pair_free a b xs \<Longrightarrow> \<not> prefix (a # b # t) xs"
  by (induction a b xs rule: pair_free.induct) auto

lemma pair_free_Cons: "pair_free a b (x # xs) \<Longrightarrow> pair_free a b xs"
  by (cases xs) auto

lemma pair_free_sublist: "pair_free a b xs \<Longrightarrow> \<not> sublist (a # b # t) xs"
proof (induction xs)
  case Nil
  show ?case by simp
next
  case (Cons x xs)
  then show ?case
    using pair_free_prefix [of a b "x # xs" t] pair_free_Cons [of a b x xs]
    by (auto simp: sublist_Cons_right)
qed

lemma pair_free_no_text:
  assumes "pair_free a b xs" and "sublist (a # b # t) s"
  shows "\<not> sublist s xs"
proof
  assume "sublist s xs"
  with assms(2) have "sublist (a # b # t) xs"
    by (rule sublist_order.order_trans)
  with assms(1) show False
    by (simp add: pair_free_sublist)
qed

lemma sublist_append_right: "sublist s ys \<Longrightarrow> sublist s (xs @ ys)"
  unfolding sublist_def by (metis append.assoc)

lemma sublist_append_left: "sublist s xs \<Longrightarrow> sublist s (xs @ ys)"
  unfolding sublist_def by (metis append.assoc)

lemma sublist_in_concat: "p \<in> set ps \<Longrightarrow> sublist s p \<Longrightarrow> sublist s (concat ps)"
  by (induction ps) (auto intro: sublist_append_left sublist_append_right)

lemma postprocess_no_braces:
  assumes "pair_free (CHR ''{'') (CHR ''{'') txt"
  shows "postprocess_readme self txt info = txt"
proof -
  have "\<not> sublist (CHR ''{'' # CHR ''{'' # t) txt" for t
    using assms by (rule pair_free_sublist)
  then show ?thesis
    by (simp add: postprocess_readme_def)
qed



lemma replace_whole: "old \<noteq> [] \<Longrightarrow> str_replace old old new = new"
  by (cases old) (simp_all add: str_replace_def)

section \<open>The run on the repository of the scenario\<close>

lemma head_braces_free:
  "pair_free (CHR ''{'') (CHR ''{'') readme_head_1"
  "pair_free (CHR ''{'') (CHR ''{'') readme_head_2"
  "pair_free (CHR ''{'') (CHR ''{'') readme_head_3"
  "pair_free (CHR ''{'') (CHR ''{'') readme_head_4"
  "pair_free (CHR ''{'') (CHR ''{'') readme_head_5"
  "pair_free (CHR ''{'') (CHR ''{'') readme_head_6"
  "pair_free (CHR ''{'') (CHR ''{'') readme_head_7"
  "pair_free (CHR ''{'') (CHR ''{'') readme_head_8"
  "pair_free (CHR ''{'') (CHR ''{'') readme_head_9"
  "pair_free (CHR ''{'') (CHR ''{'') readme_head_10"
  by (simp_all add: readme_head_1_def readme_head_2_def readme_head_3_def readme_head_4_def readme_head_5_def readme_head_6_def readme_head_7_def readme_head_8_def readme_head_9_def readme_head_10_def)

lemma tail_braces_free:
  "pair_free (CHR ''{'') (CHR ''{'') readme_sections_1"
  "pair_free (CHR ''{'') (CHR ''{'') readme_sections_2"
  "pair_free (CHR ''{'') (CHR ''{'') readme_sections_3"
  "pair_free (CHR ''{'') (CHR ''{'') readme_sections_4"
  "pair_free (CHR ''{'') (CHR ''{'') readme_sections_5"
  "pair_free (CHR ''{'') (CHR ''{'') readme_sections_6"
  "pair_free (CHR ''{'') (CHR ''{'') readme_sections_7"
  "pair_free (CHR ''{'') (CHR ''{'') readme_sections_8"
  "pair_free (CHR ''{'') (CHR ''{'') readme_sections_9"
  "pair_free (CHR ''{'') (CHR ''{'') readme_sections_10"
  "pair_free (CHR ''{'') (CHR ''{'') readme_sections_11"
  "pair_free (CHR ''{'') (CHR ''{'') readme_sections_12"
  by (simp_all add: readme_sections_1_def readme_sections_2_def readme_sections_3_def readme_sections_4_def readme_sections_5_def readme_sections_6_def readme_sections_7_def readme_sections_8_def readme_sections_9_def readme_sections_10_def readme_sections_11_def readme_sections_12_def)

lemma head_caps_free:
  "pair_free (CHR ''E'') (CHR '']'') readme_head_1"
  "pair_free (CHR ''E'') (CHR '']'') readme_head_2"
  "pair_free (CHR ''E'') (CHR '']'') readme_head_3"
  "pair_free (CHR ''E'') (CHR '']'') readme_head_4"
  "pair_free (CHR ''E'') (CHR '']'') readme_head_5"
  "pair_free (CHR ''E'') (CHR '']'') readme_head_6"
  "pair_free (CHR ''E'') (CHR '']'') readme_head_7"
  "pair_free (CHR ''E'') (CHR '']'') readme_head_8"
  "pair_free (CHR ''E'') (CHR '']'') readme_head_9"
  "pair_free (CHR ''E'') (CHR '']'') readme_head_10"
  by (simp_all add: readme_head_1_def readme_head_2_def readme_head_3_def readme_head_4_def readme_head_5_def readme_head_6_def readme_head_7_def readme_head_8_def readme_head_9_def readme_head_10_def)

lemma tail_caps_free:
  "pair_free (CHR ''E'') (CHR '']'') readme_sections_1"
  "pair_free (CHR ''E'') (CHR '']'') readme_sections_2"
  "pair_free (CHR ''E'') (CHR '']'') readme_sections_3"
  "pair_free (CHR ''E'') (CHR '']'') readme_sections_4"
  "pair_free (CHR ''E'') (CHR '']'') readme_sections_5"
  "pair_free (CHR ''E'') (CHR '']'') readme_sections_6"
  "pair_free (CHR ''E'') (CHR '']'') readme_sections_7"
  "pair_free (CHR ''E'') (CHR '']'') readme_sections_8"
  "pair_free (CHR ''E'') (CHR '']'') readme_sections_9"
  "pair_free (CHR ''E'') (CHR '']'') readme_sections_10"
  "pair_free (CHR ''E'') (CHR '']'') readme_sections_11"
  "pair_free (CHR ''E'') (CHR '']'') readme_sections_12"
  by (simp_all add: readme_sections_1_def readme_sections_2_def readme_sections_3_def readme_sections_4_def readme_sections_5_def readme_sections_6_def readme_sections_7_def readme_sections_8_def readme_sections_9_def readme_sections_10_def readme_sections_11_def readme_sections_12_def)

lemma head_ticks_free:
  "pair_free (CHR ''['') (CHR 0x60) readme_head_1"
  "pair_free (CHR ''['') (CHR 0x60) readme_head_2"
  "pair_free (CHR ''['') (CHR 0x60) readme_head_3"
  "pair_free (CHR ''['') (CHR 0x60) readme_head_4"
  "pair_free (CHR ''['') (CHR 0x60) readme_head_5"
  "pair_free (CHR ''['') (CHR 0x60) readme_head_6"
  "pair_free (CHR ''['') (CHR 0x60) readme_head_7"
  "pair_free (CHR ''['') (CHR 0x60) readme_head_8"
  "pair_free (CHR ''['') (CHR 0x60) readme_head_9"
  "pair_free (CHR ''['') (CHR 0x60) readme_head_10"
  by (simp_all add: readme_head_1_def readme_head_2_def readme_head_3_def readme_head_4_def readme_head_5_def readme_head_6_def readme_head_7_def readme_head_8_def readme_head_9_def readme_head_10_def)

lemma tail_ticks_free:
  "pair_free (CHR ''['') (CHR 0x60) readme_sections_1"
  "pair_free (CHR ''['') (CHR 0x60) readme_sections_2"
  "pair_free (CHR ''['') (CHR 0x60) readme_sections_3"
  "pair_free (CHR ''['') (CHR 0x60) readme_sections_4"
  "pair_free (CHR ''['') (CHR 0x60) readme_sections_5"
  "pair_free (CHR ''['') (CHR 0x60) readme_sections_6"
  "pair_free (CHR ''['') (CHR 0x60) readme_sections_7"
  "pair_free (CHR ''['') (CHR 0x60) readme_sections_8"
  "pair_free (CHR ''['') (CHR 0x60) readme_sections_9"
  "pair_free (CHR ''['') (CHR 0x60) readme_sections_10"
  "pair_free (CHR ''['') (CHR 0x60) readme_sections_11"
  "pair_free (CHR ''['') (CHR 0x60) readme_sections_12"
  by (simp_all add: readme_sections_1_def readme_sections_2_def readme_sections_3_def readme_sections_4_def readme_sections_5_def readme_sections_6_def readme_sections_7_def readme_sections_8_def readme_sections_9_def readme_sections_10_def readme_sections_11_def readme_sections_12_def)



lemma scenario_walk:
  "os_walk keep ''repo'' (tree scenario_repo)
   = [(''repo'', [], [(''a.py'', Some ''import os''), (''b.json'', Some ''{}''),
                      (''LICENSE'', Some ''MIT License'')])]"
  by (simp add: scenario_repo_def)

lemma scenario_ext:
  "str_lower (splitext_ext ''a.py'') = ''.py''"
  "str_lower (splitext_ext ''b.json'') = ''.json''"
  "str_lower (splitext_ext ''LICENSE'') = []"
  by (simp_all add: splitext_ext_def str_lower_def lower_char_def
      upper_chars_def lower_chars_def)

lemma scenario_scan: "scan_repository scenario_repo = [small_file, json_file]"
proof -
  have p: "repo_path scenario_repo = ''repo''"
    by (simp add: scenario_repo_def)
  have k: "keep_file ''a.py''" "keep_file ''b.json''" "\<not> keep_file ''LICENSE''"
    by (simp_all add: keep_file_def ignore_files_def)
  have a: "scan_file ''repo'' ''repo'' (''a.py'', Some ''import os'') = small_file"
    by (simp add: scan_file_def scenario_ext small_file_def path_join_def relpath_def
        file_extensions_def Let_def)
  have b: "scan_file ''repo'' ''repo'' (''b.json'', Some ''{}'') = json_file"
    by (simp add: scan_file_def scenario_ext json_file_def path_join_def relpath_def
        file_extensions_def Let_def)
  show ?thesis
    by (simp add: scan_repository_def p scenario_walk k a b)
qed

lemma scenario_stats: "get_language_stats scenario_repo = [(''Python'', 1), (''JSON'', 1)]"
proof -
  have p: "repo_path scenario_repo = ''repo''"
    by (simp add: scenario_repo_def)
  show ?thesis
    by (simp add: get_language_stats_def p scenario_walk count_file_def scenario_ext
        file_extensions_def tally_def)
qed

lemma scenario_info_eq:
  "scenario_info = \<lparr>name = ''repo'',
     description = ''Automatically generated description of the project'',
     files = [small_file, json_file], last_commit = [],
     language_stats = [(''Python'', 1), (''JSON'', 1)], remote_url = []\<rparr>"
proof -
  have "origin_url scenario_repo = []" "repo_path scenario_repo = ''repo''"
    "head_commit scenario_repo = []"
    by (simp_all add: scenario_repo_def)
  moreover have "basename ''repo'' = ''repo''"
    by (simp add: basename_def)
  ultimately show ?thesis
    by (simp add: scenario_info_def get_repo_info_def scenario_scan scenario_stats)
qed

lemma json_file_skipped: "skips_analysis json_file"
  by (simp add: skips_analysis_def json_file_def skipped_languages_def)

lemma scenario_analysis:
  "analyze_files endpoint_down [small_file, json_file] []
   = ([small_file\<lparr>analysis := Some analysis_failed, combine_message := Some None\<rparr>, json_file],
      chunk_requests small_file)"
  by (simp add: analyze_file_run [OF small_file_runs] analyze_file_skip [OF json_file_skipped]
      small_file_results Let_def)

lemma scenario_icons:
  "language_icons [(''Python'', 1), (''JSON'', 1)]
   = ''<img src=\"https://github.com/devicons/devicon/blob/master/icons/python/python-original.svg?raw=true\" title=\"Python\" alt=\"Python\" width=\"40\" height=\"40\"/> \<newline></p>\<newline>\<newline>''"
  by (simp add: language_icons_def devicon_map_def)

lemma scenario_sections:
  "load_sections json_loads_demo [] = JObject fallback_sections"
  by (simp add: load_sections_def json_loads_demo_def partial_answer_def)


lemma fallback_texts:
  "section_text fallback_sections ''project_description''
     = ''The description of the project could not be generated.''"
  "section_text fallback_sections ''project_overview_content''
     = ''The overview of the project could not be generated.''"
  "section_text fallback_sections ''features_content''
     = ''The features could not be generated.''"
  "section_text fallback_sections ''technologies_content''
     = ''The technology stack could not be generated.''"
  "section_text fallback_sections ''installation_content''
     = ''The installation instructions could not be generated.''"
  "section_text fallback_sections ''usage_examples_content''
     = ''The usage examples could not be generated.''"
  "section_text fallback_sections ''project_structure_description''
     = ''The description of the project structure could not be generated.''"
  by (simp_all add: section_text_def section_get_def fallback_sections_def)

lemma scenario_template_eq:
  "scenario_template
   = readme_head_1 @ readme_head_2 @ readme_head_3 @ readme_head_4 @ readme_head_5
     @ readme_head_6 @ readme_head_7 @ readme_head_8 @ readme_head_9 @ ''repo''
     @ readme_head_10 @ language_icons [(''Python'', 1), (''JSON'', 1)]
     @ readme_sections fallback_sections"
  by (simp add: scenario_template_def scenario_info_eq readme_head_def github_badges_def)

lemma scenario_template_free:
  assumes "list_all (pair_free a b) [readme_head_1,
      readme_head_2,
      readme_head_3,
      readme_head_4,
      readme_head_5,
      readme_head_6,
      readme_head_7,
      readme_head_8,
      readme_head_9,
      readme_head_10,
      readme_sections_1,
      readme_sections_2,
      readme_sections_3,
      readme_sections_4,
      readme_sections_5,
      readme_sections_6,
      readme_sections_7,
      readme_sections_8,
      readme_sections_9,
      readme_sections_10,
      readme_sections_11,
      readme_sections_12]"
    and "pair_free a b ''repo''"
    and "pair_free a b (language_icons [(''Python'', 1), (''JSON'', 1)])"
    and "list_all (\<lambda>key. pair_free a b (section_text fallback_sections key)) required_sections"
  shows "pair_free a b scenario_template"
  unfolding scenario_template_eq readme_sections_def
  using assms by (intro pair_free_append) (simp_all add: required_sections_def)

lemma scenario_icons_free:
  "pair_free (CHR ''{'') (CHR ''{'') (language_icons [(''Python'', 1), (''JSON'', 1)])"
  "pair_free (CHR ''E'') (CHR '']'') (language_icons [(''Python'', 1), (''JSON'', 1)])"
  "pair_free (CHR ''['') (CHR 0x60) (language_icons [(''Python'', 1), (''JSON'', 1)])"
  by (simp_all only: scenario_icons) simp_all

lemma scenario_template_braces: "pair_free (CHR ''{'') (CHR ''{'') scenario_template"
proof (rule scenario_template_free)
  show "pair_free (CHR ''{'') (CHR ''{'') (language_icons [(''Python'', 1), (''JSON'', 1)])"
    by (rule scenario_icons_free)
qed (simp_all add: head_braces_free tail_braces_free fallback_texts required_sections_def)

lemma scenario_template_caps: "pair_free (CHR ''E'') (CHR '']'') scenario_template"
proof (rule scenario_template_free)
  show "pair_free (CHR ''E'') (CHR '']'') (language_icons [(''Python'', 1), (''JSON'', 1)])"
    by (rule scenario_icons_free)
qed (simp_all add: head_caps_free tail_caps_free fallback_texts required_sections_def)

lemma scenario_template_ticks: "pair_free (CHR ''['') (CHR 0x60) scenario_template"
proof (rule scenario_template_free)
  show "pair_free (CHR ''['') (CHR 0x60) (language_icons [(''Python'', 1), (''JSON'', 1)])"
    by (rule scenario_icons_free)
qed (simp_all add: head_ticks_free tail_ticks_free fallback_texts required_sections_def)

lemma scenario_document_eq: "scenario_document = Inr scenario_template"
proof -
  have g: "github_parts f [] = ([], [])" for f
    by (simp add: github_parts_def)
  have "files scenario_info = [small_file, json_file]"
    by (simp add: scenario_info_eq)
  then have a: "analyze_files endpoint_down (files scenario_info) []
      = ([small_file\<lparr>analysis := Some analysis_failed, combine_message := Some None\<rparr>, json_file],
         chunk_requests small_file)"
    by (simp only: scenario_analysis)
  have url: "remote_url scenario_info = []"
    by (simp add: scenario_info_eq)
  have t: "readme_template (scenario_info\<lparr>files := fs\<rparr>) [] [] (JObject fallback_sections)
           = Inr scenario_template" for fs
    by (simp add: readme_template_def scenario_template_def readme_head_def)
  show ?thesis
    by (simp add: scenario_document_def generate_readme_def a url g
        analyze_with_llm_def endpoint_down_def scenario_sections t
        postprocess_no_braces [OF scenario_template_braces])
qed




lemma placeholders_in_piece:
  "sublist ''{project_structure_content}'' readme_sections_8"
  "sublist ''{contributing_content}'' readme_sections_8"
  "sublist ''{license_content}'' readme_sections_8"
  by (simp_all add: readme_sections_8_def sublist_Cons_right)

lemma scenario_template_concat:
  "scenario_template
   = concat [readme_head_1, readme_head_2, readme_head_3, readme_head_4, readme_head_5,
       readme_head_6, readme_head_7, readme_head_8, readme_head_9, ''repo'', readme_head_10,
       language_icons [(''Python'', 1), (''JSON'', 1)],
       readme_sections_1, section_text fallback_sections ''project_description'',
       readme_sections_2, section_text fallback_sections ''project_overview_content'',
       readme_sections_3, section_text fallback_sections ''features_content'',
       readme_sections_4, section_text fallback_sections ''technologies_content'',
       readme_sections_5, section_text fallback_sections ''installation_content'',
       readme_sections_6, section_text fallback_sections ''usage_examples_content'',
       readme_sections_7, section_text fallback_sections ''project_structure_description'',
       readme_sections_8, readme_sections_9, readme_sections_10, readme_sections_11,
       readme_sections_12]"
  by (simp add: scenario_template_eq readme_sections_def)

lemma piece_in_template: "sublist s readme_sections_8 \<Longrightarrow> sublist s scenario_template"
  unfolding scenario_template_concat by (rule sublist_in_concat) simp_all

lemma token_repo_structure:
  "project_structure_str token_repo
   = ''```\<newline>repo/\<newline>    {{project_structure_content}}\<newline>```\<newline>''"
  by (simp add: project_structure_str_def token_repo_def structure_entry_def structure_files_def
      keep_file_def ignore_files_def str_replace_def str_count_def basename_def Let_def
      numeral_eq_Suc)

lemma token_survives:
  "postprocess_readme token_repo ''{{project_structure_content}}'' info
   = ''```\<newline>repo/\<newline>    {{project_structure_content}}\<newline>```\<newline>''"
proof -
  let ?s = "''```\<newline>repo/\<newline>    {{project_structure_content}}\<newline>```\<newline>''"
  have "\<not> sublist ''{{contributing_content}}'' ?s" "\<not> sublist ''{{license_content}}'' ?s"
    by (simp_all add: sublist_Cons_right)
  then show ?thesis
    by (simp add: postprocess_readme_def replace_whole token_repo_structure)
qed

lemma token_in_output:
  "sublist ''{{project_structure_content}}''
     (postprocess_readme token_repo ''{{project_structure_content}}'' info)"
  by (simp add: token_survives sublist_Cons_right)

text \<open>
  C5, at a run of the whole program. On the repository of the scenario, with the endpoint
  down, \<^verbatim>\<open>generate_readme\<close> returns its template as it built it: the template holds the
  three placeholders with single braces, \<^verbatim>\<open>_postprocess_readme\<close> looks for them with
  double braces and finds none, and the three placeholders are still in the document.
  A double-brace token itself stays in the result of \<^verbatim>\<open>_postprocess_readme\<close> when the
  text holds \<^verbatim>\<open>{{project_structure_content}}\<close> and a file of the repository has that
  name: the directory tree that replaces the token holds it again.
\<close>

theorem placeholders_unresolved:
  "scenario_document = Inr scenario_template
   \<and> sublist ''{project_structure_content}'' scenario_template
   \<and> sublist ''{contributing_content}'' scenario_template
   \<and> sublist ''{license_content}'' scenario_template
   \<and> \<not> sublist ''{{project_structure_content}}'' scenario_template
   \<and> \<not> sublist ''{{contributing_content}}'' scenario_template
   \<and> \<not> sublist ''{{license_content}}'' scenario_template
   \<and> sublist ''{{project_structure_content}}''
        (postprocess_readme token_repo ''{{project_structure_content}}'' scenario_info)"
  by (simp add: scenario_document_eq placeholders_in_piece piece_in_template
      pair_free_sublist [OF scenario_template_braces] token_in_output)



lemma license_file_path: "path license_file = ''LICENSE''"
  by (simp add: license_file_def scan_file_def Let_def path_join_def relpath_def)

lemma license_texts_pairs:
  "sublist (CHR ''E'' # CHR '']'' # ''(LICENSE).'') license_default_text"
  "sublist (CHR ''['' # CHR 0x60 # ''LICENSE`](/blob/main/LICENSE).'')
     (license_found_text license_file scenario_info)"
  by (simp_all add: license_default_text_def license_found_text_def license_file_path
      scenario_info_eq sublist_Cons_right)

lemma scenario_license_search:
  "find (\<lambda>file. str_lower (path file) = ''license'') (files scenario_info) = None"
  by (simp add: scenario_info_eq small_file_def json_file_def str_lower_def lower_char_def
      upper_chars_def lower_chars_def)

text \<open>
  C2, on the repository of the scenario, which has a file \<^verbatim>\<open>LICENSE\<close>. The scan
  ignores that file, so that on a text with the placeholder \<^verbatim>\<open>{{license_content}}\<close>
  the default sentence is substituted, not the one that names the file; and the document
  of the run holds neither of the two license sentences.
\<close>

theorem license_sentence_missing:
  "map path (scan_repository scenario_repo) = [''a.py'', ''b.json'']
   \<and> postprocess_readme scenario_repo ''{{license_content}}'' scenario_info = license_default_text
   \<and> scenario_document = Inr scenario_template
   \<and> \<not> sublist license_default_text scenario_template
   \<and> \<not> sublist (license_found_text license_file scenario_info) scenario_template"
proof -
  have "map path (scan_repository scenario_repo) = [''a.py'', ''b.json'']"
    by (simp add: scenario_scan small_file_def json_file_def)
  moreover have "postprocess_readme scenario_repo ''{{license_content}}'' scenario_info
      = license_default_text"
  proof -
    have "\<not> sublist ''{{project_structure_content}}'' ''{{license_content}}''"
      "\<not> sublist ''{{contributing_content}}'' ''{{license_content}}''"
      by (simp_all add: sublist_Cons_right)
    then show ?thesis
      by (simp add: postprocess_readme_def scenario_license_search replace_whole)
  qed
  moreover note scenario_document_eq
  moreover have "\<not> sublist license_default_text scenario_template"
    using scenario_template_caps license_texts_pairs(1) by (rule pair_free_no_text)
  moreover have "\<not> sublist (license_found_text license_file scenario_info) scenario_template"
    using scenario_template_ticks license_texts_pairs(2) by (rule pair_free_no_text)
  ultimately show ?thesis by simp
qed



section \<open>The section object\<close>




























end
